theory Spec2Isabelle
  imports Complex_Main
begin

section \<open>JavaScript values and the operations the agent applies to them\<close>

text \<open>
  The agent is JavaScript. Strings are sequences of code units; the model uses Isabelle
  strings, so it covers the code units below 256. A thrown value is an error object of
  which the code only ever reads \<open>message\<close>.
\<close>

datatype exn =
  Error (message: string)
| TypeError (message: string)
| SyntaxError (message: string)

text \<open>
  What \<open>JSON.parse\<close> yields, and \<open>undefined\<close> for a property that is not there.
  A number is the value of the double (\<open>JSON.parse\<close> never yields NaN; a literal that
  overflows to Infinity is outside the model). An object is its list of own properties,
  one entry per key.
\<close>

datatype jsval =
  Undefined
| Null
| Bool bool
| Num rat
| Str string
| Arr "jsval list"
| Obj "(string \<times> jsval) list"

text \<open>\<open>ToBoolean\<close>: what \<open>!x\<close> and \<open>x || y\<close> test.\<close>

fun truthy :: "jsval \<Rightarrow> bool" where
  "truthy Undefined = False"
| "truthy Null = False"
| "truthy (Bool b) = b"
| "truthy (Num n) = (n \<noteq> 0)"
| "truthy (Str s) = (s \<noteq> [])"
| "truthy (Arr xs) = True"
| "truthy (Obj ps) = True"

text \<open>\<open>Array.prototype.join\<close> on strings already converted.\<close>

fun join_strs :: "string \<Rightarrow> string list \<Rightarrow> string" where
  "join_strs sep [] = []"
| "join_strs sep [s] = s"
| "join_strs sep (s # t # ss) = s @ sep @ join_strs sep (t # ss)"

text \<open>The first exception of a left-to-right evaluation wins.\<close>

fun sequence_exn :: "(exn + 'a) list \<Rightarrow> exn + 'a list" where
  "sequence_exn [] = Inr []"
| "sequence_exn (Inl e # rs) = Inl e"
| "sequence_exn (Inr x # rs) = (case sequence_exn rs of Inl e \<Rightarrow> Inl e | Inr xs \<Rightarrow> Inr (x # xs))"

text \<open>
  \<open>ToString\<close>, as a template literal \<open>${x}\<close> and a computed property key apply it.
  The first argument is the runtime's formatting of a number. An array joins its
  elements with a comma, \<open>null\<close> and \<open>undefined\<close> elements as the empty string. A
  plain object prints through \<open>Object.prototype.toString\<close>, unless it has an own
  property \<open>toString\<close>: a parsed value is never callable, \<open>valueOf\<close> gives no
  primitive either, and the conversion throws. The messages of the runtime's own
  TypeErrors are written as V8 words them.
\<close>

fun ToString :: "(rat \<Rightarrow> string) \<Rightarrow> jsval \<Rightarrow> exn + string" where
  "ToString nts Undefined = Inr ''undefined''"
| "ToString nts Null = Inr ''null''"
| "ToString nts (Bool b) = Inr (if b then ''true'' else ''false'')"
| "ToString nts (Num n) = Inr (nts n)"
| "ToString nts (Str s) = Inr s"
| "ToString nts (Arr xs) =
     (case sequence_exn
        (map (\<lambda>x. case x of Undefined \<Rightarrow> Inr [] | Null \<Rightarrow> Inr [] | _ \<Rightarrow> ToString nts x) xs) of
        Inl e \<Rightarrow> Inl e
      | Inr ss \<Rightarrow> Inr (join_strs '','' ss))"
| "ToString nts (Obj ps) =
     (if map_of ps ''toString'' = None then Inr ''[object Object]''
      else Inl (TypeError ''Cannot convert object to primitive value''))"

text \<open>\<open>xs.join(sep)\<close> on an array of values.\<close>

definition js_join :: "(rat \<Rightarrow> string) \<Rightarrow> string \<Rightarrow> jsval list \<Rightarrow> exn + string" where
  "js_join nts sep xs =
     (case sequence_exn
        (map (\<lambda>x. case x of Undefined \<Rightarrow> Inr [] | Null \<Rightarrow> Inr [] | _ \<Rightarrow> ToString nts x) xs) of
        Inl e \<Rightarrow> Inl e
      | Inr ss \<Rightarrow> Inr (join_strs sep ss))"

text \<open>
  \<open>x.name\<close> for the names the selectors read from a parsed response
  (\<open>selectedQuery\<close>, \<open>selectedQueryIndex\<close>, \<open>confidence\<close>, \<open>reasoning\<close>,
  \<open>selectedTables\<close>, \<open>selectedColumns\<close>). None of them is a property of a built-in
  prototype, so a value without that own property reads as \<open>undefined\<close>; reading a
  property of \<open>null\<close> or \<open>undefined\<close> throws.
\<close>

fun get_field :: "jsval \<Rightarrow> string \<Rightarrow> exn + jsval" where
  "get_field Undefined k =
     Inl (TypeError (''Cannot read properties of undefined (reading '' @ [CHR 0x27] @ k @ [CHR 0x27] @ '')''))"
| "get_field Null k =
     Inl (TypeError (''Cannot read properties of null (reading '' @ [CHR 0x27] @ k @ [CHR 0x27] @ '')''))"
| "get_field (Obj ps) k = Inr (case map_of ps k of Some v \<Rightarrow> v | None \<Rightarrow> Undefined)"
| "get_field v k = Inr Undefined"

text \<open>
  \<open>base[key]\<close> with a key computed at run time. An own property of a plain object is
  read from its list. Everything else is answered by the runtime's built-in objects
  (the prototype chain of a plain object; the indices, \<open>length\<close> and prototype of an
  array or a string; the prototype of a number or a boolean) and is a parameter of the
  model: either a value, or a built-in function or prototype object, which is truthy
  and has no \<open>join\<close>.
\<close>

datatype member = Value jsval | Builtin

subsection \<open>String operations\<close>

text \<open>
  White space and line terminators below code unit 256, as \<open>String.prototype.trim\<close>
  strips them: TAB, LF, VT, FF, CR, SP and NBSP.
\<close>

definition is_space :: "char \<Rightarrow> bool" where
  "is_space c = (of_char c \<in> {9, 10, 11, 12, 13, 32, 160 :: nat})"

definition js_trim :: "string \<Rightarrow> string" where
  "js_trim s = rev (dropWhile is_space (rev (dropWhile is_space s)))"

fun starts_with :: "string \<Rightarrow> string \<Rightarrow> bool" where
  "starts_with s [] = True"
| "starts_with [] (p # ps) = False"
| "starts_with (c # cs) (p # ps) = (c = p \<and> starts_with cs ps)"

definition endsWith :: "string \<Rightarrow> string \<Rightarrow> bool" where
  "endsWith s suf = starts_with (rev s) (rev suf)"

fun js_includes :: "string \<Rightarrow> string \<Rightarrow> bool" where
  "js_includes [] sub = (sub = [])"
| "js_includes (c # cs) sub = (starts_with (c # cs) sub \<or> js_includes cs sub)"

text \<open>
  A regular expression that is a literal word with the \<open>i\<close> flag, as in
  \<open>/SELECT/i.test(s)\<close>. Without the \<open>u\<close> flag both sides are canonicalised by
  upper-casing a code unit, and a code unit from 128 up is never mapped below 128; for
  a pattern of ASCII letters this is upper-casing \<open>a\<close> to \<open>z\<close> and nothing else.
\<close>

definition canonicalize :: "char \<Rightarrow> char" where
  "canonicalize c =
     (let n = (of_char c :: nat) in if 97 \<le> n \<and> n \<le> 122 then char_of (n - 32) else c)"

fun matches_here :: "string \<Rightarrow> string \<Rightarrow> bool" where
  "matches_here [] s = True"
| "matches_here (p # ps) [] = False"
| "matches_here (p # ps) (c # cs) = (canonicalize p = canonicalize c \<and> matches_here ps cs)"

fun regex_test_i :: "string \<Rightarrow> string \<Rightarrow> bool" where
  "regex_test_i pat [] = matches_here pat []"
| "regex_test_i pat (c # cs) = (matches_here pat (c # cs) \<or> regex_test_i pat cs)"

text \<open>The decimal digits of an array index plus one, as \<open>${index + 1}\<close> prints them.\<close>

fun show_nat :: "nat \<Rightarrow> string" where
  "show_nat n =
     (if n < 10 then [char_of (48 + n)] else show_nat (n div 10) @ [char_of (48 + n mod 10)])"

section \<open>The runtime and the model service\<close>

text \<open>
  Everything the repository's code calls but does not contain.
  \<^item> \<open>ollama_chat k model prompt\<close>: the \<open>k\<close>-th call of \<open>ollama.chat\<close> (counted from 0)
    with that model and prompt; it throws, or returns \<open>response.message.content\<close>.
    Indexing by \<open>k\<close> lets the service answer the same prompt differently each time.
  \<^item> \<open>OLLAMA_MODEL\<close>: the environment variable.
  \<^item> \<open>JSON_parse\<close>: \<open>JSON.parse\<close>, which throws a SyntaxError or returns a value.
  \<^item> \<open>Number_toString\<close>: the runtime's printing of a number.
  \<^item> \<open>builtin_get\<close>: a property read answered by a built-in object (see \<open>member\<close>).
\<close>

record engine =
  ollama_chat :: "nat \<Rightarrow> string \<Rightarrow> string \<Rightarrow> exn + string"
  OLLAMA_MODEL :: "string option"
  JSON_parse :: "string \<Rightarrow> exn + jsval"
  Number_toString :: "rat \<Rightarrow> string"
  builtin_get :: "jsval \<Rightarrow> string \<Rightarrow> member"

text \<open>Catalog entries, with the shape the README and the demo give them.\<close>

record example_query =
  query :: string
  description :: string

record column =
  name :: string
  type :: string
  description :: "string option"

record table_metadata =
  description :: "string option"
  columns :: "column list"

text \<open>
  The mutable state: the two catalogs the agent's components hold (\<open>tableMetadata\<close>
  in the order \<open>Object.entries\<close> lists it), and the log of the calls made to the
  model service, each a model name and a prompt, oldest first.
\<close>

record state =
  exampleQueries :: "example_query list"
  tableMetadata :: "(string \<times> table_metadata) list"
  calls :: "(string \<times> string) list"

subsection \<open>callOllama\<close>

text \<open>
  From \<open>utils/ollama.js\<close> (\<open>src/unnamed/part_002\<close>): the call is logged, and what
  \<open>ollama.chat\<close> throws is thrown again as an \<open>Error\<close> with a prefixed message.
\<close>

text \<open>\<open>model || process.env.OLLAMA_MODEL || 'llama3.1'\<close>: an empty string is falsy.\<close>

definition model_name :: "engine \<Rightarrow> string option \<Rightarrow> string" where
  "model_name env model =
     (case model of
        Some m \<Rightarrow> if m \<noteq> [] then m
          else (case OLLAMA_MODEL env of
                  Some d \<Rightarrow> if d \<noteq> [] then d else ''llama3.1''
                | None \<Rightarrow> ''llama3.1'')
      | None \<Rightarrow>
          (case OLLAMA_MODEL env of
             Some d \<Rightarrow> if d \<noteq> [] then d else ''llama3.1''
           | None \<Rightarrow> ''llama3.1''))"

definition callOllama :: "engine \<Rightarrow> string \<Rightarrow> string option \<Rightarrow> state \<Rightarrow> (exn + string) \<times> state" where
  "callOllama env prompt model s =
     (let m = model_name env model;
          s' = s\<lparr>calls := calls s @ [(m, prompt)]\<rparr>
      in case ollama_chat env (length (calls s)) m prompt of
           Inl e \<Rightarrow> (Inl (Error (''Ollama API call failed: '' @ message e)), s')
         | Inr content \<Rightarrow> (Inr content, s'))"

section \<open>The step results\<close>

text \<open>
  Each step returns an object literal. \<open>success\<close> and \<open>error\<close> are written on some
  return paths only: \<open>None\<close> is a property that is not there, which reads as
  \<open>undefined\<close>.
\<close>

record step_result =
  success :: "bool option"
  error :: "string option"

text \<open>\<open>!r.success\<close> and \<open>${r.error}\<close>, as the orchestrator evaluates them.\<close>

definition failed :: "'a step_result_scheme \<Rightarrow> bool" where
  "failed r = (case step_result.success r of Some b \<Rightarrow> \<not> b | None \<Rightarrow> True)"

definition error_text :: "'a step_result_scheme \<Rightarrow> string" where
  "error_text r = (case step_result.error r of Some m \<Rightarrow> m | None \<Rightarrow> ''undefined'')"

section \<open>InputRefinement\<close>

text \<open>
  From \<open>components/inputRefinement.js\<close> (\<open>src/unnamed/part_000\<close>). The prompt is the
  template literal of the source, character for character.
\<close>

record refinement_result = step_result +
  original :: string
  refined :: string

definition refinement_prompt :: "string \<Rightarrow> string" where
  \<open>refinement_prompt userInput =
     ''\<newline>'' @
     ''You are an AI assistant that refines user queries for SQL generation. \<newline>'' @
     ''Your task is to take a user's natural language query and refine it to be more specific, clear, and suitable for SQL query generation.\<newline>'' @
     ''\<newline>'' @
     ''User Input: "'' @
     userInput @
     ''"\<newline>'' @
     ''\<newline>'' @
     ''Please refine this input by:\<newline>'' @
     ''1. Clarifying any ambiguous terms\<newline>'' @
     ''2. Adding specific details that would be helpful for SQL generation\<newline>'' @
     ''3. Identifying the main intent (SELECT, UPDATE, DELETE, etc.)\<newline>'' @
     ''4. Suggesting specific data types or ranges where appropriate\<newline>'' @
     ''\<newline>'' @
     ''Return only the refined query in a clear, concise format.\<newline>''\<close>

definition refineUserInput :: "engine \<Rightarrow> string \<Rightarrow> state \<Rightarrow> refinement_result \<times> state" where
  "refineUserInput env userInput s =
     (case callOllama env (refinement_prompt userInput) None s of
        (Inr response, s') \<Rightarrow>
          (\<lparr>success = Some True, error = None, original = userInput, refined = response\<rparr>, s')
      | (Inl e, s') \<Rightarrow>
          (\<lparr>success = Some False, error = Some (message e),
            original = userInput, refined = userInput\<rparr>, s'))"

section \<open>QuerySelector\<close>

text \<open>
  From \<open>src/src/components/querySelector.js\<close>. \<open>selectedQueryIndex\<close> is written on
  the success path only; where the literal has no such property it reads as
  \<open>undefined\<close>.
\<close>

definition addExampleQuery :: "string \<Rightarrow> string \<Rightarrow> state \<Rightarrow> state" where
  "addExampleQuery q d s =
     s\<lparr>exampleQueries := exampleQueries s @ [\<lparr>query = q, description = d\<rparr>]\<rparr>"

record query_selection = step_result +
  selectedQuery :: jsval
  selectedQueryIndex :: jsval
  confidence :: jsval
  reasoning :: jsval

definition example_text :: "nat \<times> example_query \<Rightarrow> string" where
  "example_text = (\<lambda>(index, example).
     ''\<newline>'' @
     ''Example '' @
     show_nat (index + 1) @
     '':\<newline>'' @
     ''Description: '' @
     example_query.description example @
     ''\<newline>'' @
     ''SQL Query: '' @
     query example @
     ''\<newline>'')"

definition exampleQueriesText :: "example_query list \<Rightarrow> string" where
  "exampleQueriesText exs = join_strs ''\<newline>'' (map example_text (enumerate 0 exs))"

definition selection_prompt :: "string \<Rightarrow> example_query list \<Rightarrow> string" where
  \<open>selection_prompt userPrompt exs =
     ''\<newline>'' @
     ''You are an expert SQL analyst. Given a user's request and a set of example SQL queries, select the most appropriate example query that best matches the user's intent.\<newline>'' @
     ''\<newline>'' @
     ''User Request: "'' @
     userPrompt @
     ''"\<newline>'' @
     ''\<newline>'' @
     ''Available Example Queries:\<newline>'' @
     exampleQueriesText exs @
     ''\<newline>'' @
     ''\<newline>'' @
     ''Please analyze the user request and:\<newline>'' @
     ''1. Select the example query that best matches the user's intent\<newline>'' @
     ''2. Provide a confidence score (0-100)\<newline>'' @
     ''3. Explain your reasoning\<newline>'' @
     ''\<newline>'' @
     ''Respond in JSON format:\<newline>'' @
     ''{\<newline>'' @
     ''  "selectedQueryIndex": <index_of_selected_query>,\<newline>'' @
     ''  "selectedQuery": "<the_selected_sql_query>",\<newline>'' @
     ''  "confidence": <confidence_score>,\<newline>'' @
     ''  "reasoning": "<explanation_of_why_this_query_was_selected>"\<newline>'' @
     ''}\<newline>''\<close>

text \<open>The object literal of the \<open>try\<close> block, its property values evaluated in order.\<close>

definition selection_of :: "jsval \<Rightarrow> exn + query_selection" where
  "selection_of result =
     (case get_field result ''selectedQuery'' of Inl e \<Rightarrow> Inl e | Inr q \<Rightarrow>
     (case get_field result ''selectedQueryIndex'' of Inl e \<Rightarrow> Inl e | Inr i \<Rightarrow>
     (case get_field result ''confidence'' of Inl e \<Rightarrow> Inl e | Inr c \<Rightarrow>
     (case get_field result ''reasoning'' of Inl e \<Rightarrow> Inl e | Inr r \<Rightarrow>
        Inr \<lparr>success = Some True, error = None, selectedQuery = q, selectedQueryIndex = i,
             confidence = c, reasoning = r\<rparr>))))"

text \<open>The \<open>try\<close> block: the call, then the parse, then the literal.\<close>

definition selectBestQuery_try :: "engine \<Rightarrow> string \<Rightarrow> state \<Rightarrow> (exn + query_selection) \<times> state" where
  "selectBestQuery_try env prompt s =
     (case callOllama env prompt None s of
        (Inl e, s') \<Rightarrow> (Inl e, s')
      | (Inr response, s') \<Rightarrow>
          (case JSON_parse env response of
             Inl e \<Rightarrow> (Inl e, s')
           | Inr result \<Rightarrow> (selection_of result, s')))"

definition selectBestQuery_catch :: "exn \<Rightarrow> query_selection" where
  "selectBestQuery_catch e =
     \<lparr>success = Some False, error = Some (message e), selectedQuery = Null,
      selectedQueryIndex = Undefined, confidence = Num 0,
      reasoning = Str (''Error selecting query: '' @ message e)\<rparr>"

definition selectBestQuery :: "engine \<Rightarrow> string \<Rightarrow> state \<Rightarrow> query_selection \<times> state" where
  "selectBestQuery env userPrompt s =
     (if length (exampleQueries s) = 0 then
        (\<lparr>success = None, error = None, selectedQuery = Null, selectedQueryIndex = Undefined,
          confidence = Num 0, reasoning = Str ''No example queries available''\<rparr>, s)
      else
        (case selectBestQuery_try env (selection_prompt userPrompt (exampleQueries s)) s of
           (Inr r, s') \<Rightarrow> (r, s')
         | (Inl e, s') \<Rightarrow> (selectBestQuery_catch e, s')))"

section \<open>TableSelector\<close>

text \<open>
  From \<open>components/tableSelector.js\<close> (\<open>src/unnamed/part_001\<close>). The catalog is an
  ordinary object; the model holds its own enumerable properties in the order
  \<open>Object.keys\<close> and \<open>Object.entries\<close> list them: the array indices first, in
  ascending numeric order, then the other names in the order they were created.
\<close>

text \<open>
  An array index is the canonical decimal numeral of an integer from 0 to
  \<open>2\<^sup>3\<^sup>2 - 2\<close>: digits only, no leading zero.
\<close>

definition is_digit :: "char \<Rightarrow> bool" where
  "is_digit c = (48 \<le> (of_char c :: nat) \<and> (of_char c :: nat) \<le> 57)"

definition digits_value :: "string \<Rightarrow> nat" where
  "digits_value k = foldl (\<lambda>n c. 10 * n + (of_char c - 48)) 0 k"

definition array_index :: "string \<Rightarrow> nat option" where
  "array_index k =
     (if k \<noteq> [] \<and> list_all is_digit k \<and> (k = ''0'' \<or> hd k \<noteq> CHR ''0'') \<and>
         digits_value k \<le> 4294967294
      then Some (digits_value k) else None)"

text \<open>A new array index goes before the first larger index and before every other name.\<close>

fun insert_index :: "nat \<Rightarrow> string \<Rightarrow> 'v \<Rightarrow> (string \<times> 'v) list \<Rightarrow> (string \<times> 'v) list" where
  "insert_index i k v [] = [(k, v)]"
| "insert_index i k v ((k', v') # ps) =
     (case array_index k' of
        Some j \<Rightarrow> if j < i then (k', v') # insert_index i k v ps else (k, v) # (k', v') # ps
      | None \<Rightarrow> (k, v) # (k', v') # ps)"

text \<open>
  \<open>this.tableMetadata[tableName] = metadata\<close>, the value being an object. An own
  property of that name is overwritten where it stands. Otherwise the name
  \<open>__proto__\<close> reaches the setter inherited from \<open>Object.prototype\<close>, which makes the
  value the catalog's prototype and creates no property; an array index is created in
  its numeric place; any other name is created last.
\<close>

definition set_property :: "string \<Rightarrow> 'v \<Rightarrow> (string \<times> 'v) list \<Rightarrow> (string \<times> 'v) list" where
  "set_property k v ps =
     (if map_of ps k \<noteq> None then map (\<lambda>(k', v'). if k' = k then (k, v) else (k', v')) ps
      else if k = ''__proto__'' then ps
      else (case array_index k of Some i \<Rightarrow> insert_index i k v ps | None \<Rightarrow> ps @ [(k, v)]))"

definition addTableMetadata :: "string \<Rightarrow> table_metadata \<Rightarrow> state \<Rightarrow> state" where
  "addTableMetadata tableName metadata s =
     s\<lparr>tableMetadata := set_property tableName metadata (tableMetadata s)\<rparr>"

record table_selection = step_result +
  selectedTables :: jsval
  selectedColumns :: jsval
  reasoning :: jsval
  confidence :: jsval

text \<open>\<open>d || fallback\<close> for a description that may be missing or empty.\<close>

definition or_default :: "string option \<Rightarrow> string \<Rightarrow> string" where
  "or_default d fallback = (case d of Some t \<Rightarrow> if t \<noteq> [] then t else fallback | None \<Rightarrow> fallback)"

definition column_text :: "column \<Rightarrow> string" where
  "column_text col =
     ''  - '' @ name col @ '' ('' @ type col @ ''): '' @
     or_default (column.description col) ''No description''"

definition table_text :: "string \<times> table_metadata \<Rightarrow> string" where
  "table_text = (\<lambda>(tableName, metadata).
     ''\<newline>'' @
     ''Table: '' @
     tableName @
     ''\<newline>'' @
     ''Description: '' @
     or_default (table_metadata.description metadata) ''No description available'' @
     ''\<newline>'' @
     ''Columns:\<newline>'' @
     join_strs ''\<newline>'' (map column_text (columns metadata)) @
     ''\<newline>'')"

definition metadataText :: "(string \<times> table_metadata) list \<Rightarrow> string" where
  "metadataText tm = join_strs ''\<newline>'' (map table_text tm)"

definition table_prompt :: "string \<Rightarrow> (string \<times> table_metadata) list \<Rightarrow> string" where
  \<open>table_prompt userPrompt tm =
     ''\<newline>'' @
     ''You are a database expert. Given a user's request and database table metadata, identify the most relevant tables and columns needed to fulfill the request.\<newline>'' @
     ''\<newline>'' @
     ''User Request: "'' @
     userPrompt @
     ''"\<newline>'' @
     ''\<newline>'' @
     ''Available Tables and Columns:\<newline>'' @
     metadataText tm @
     ''\<newline>'' @
     ''\<newline>'' @
     ''Please analyze the user request and:\<newline>'' @
     ''1. Identify which tables are needed\<newline>'' @
     ''2. Identify which specific columns from each table are required\<newline>'' @
     ''3. Explain your reasoning\<newline>'' @
     ''\<newline>'' @
     ''Respond in JSON format:\<newline>'' @
     ''{\<newline>'' @
     ''  "selectedTables": ["table1", "table2"],\<newline>'' @
     ''  "selectedColumns": {\<newline>'' @
     ''    "table1": ["column1", "column2"],\<newline>'' @
     ''    "table2": ["column3", "column4"]\<newline>'' @
     ''  },\<newline>'' @
     ''  "reasoning": "<explanation_of_selections>",\<newline>'' @
     ''  "confidence": <confidence_score_0_to_100>\<newline>'' @
     ''}\<newline>''\<close>

definition tables_of :: "jsval \<Rightarrow> exn + table_selection" where
  "tables_of result =
     (case get_field result ''selectedTables'' of Inl e \<Rightarrow> Inl e | Inr t \<Rightarrow>
     (case get_field result ''selectedColumns'' of Inl e \<Rightarrow> Inl e | Inr c \<Rightarrow>
     (case get_field result ''reasoning'' of Inl e \<Rightarrow> Inl e | Inr r \<Rightarrow>
     (case get_field result ''confidence'' of Inl e \<Rightarrow> Inl e | Inr f \<Rightarrow>
        Inr \<lparr>success = Some True, error = None, selectedTables = t, selectedColumns = c,
             reasoning = r, confidence = f\<rparr>))))"

definition selectTablesAndColumns_try :: "engine \<Rightarrow> string \<Rightarrow> state \<Rightarrow> (exn + table_selection) \<times> state" where
  "selectTablesAndColumns_try env prompt s =
     (case callOllama env prompt None s of
        (Inl e, s') \<Rightarrow> (Inl e, s')
      | (Inr response, s') \<Rightarrow>
          (case JSON_parse env response of
             Inl e \<Rightarrow> (Inl e, s')
           | Inr result \<Rightarrow> (tables_of result, s')))"

definition selectTablesAndColumns_catch :: "exn \<Rightarrow> table_selection" where
  "selectTablesAndColumns_catch e =
     \<lparr>success = Some False, error = Some (message e), selectedTables = Arr [],
      selectedColumns = Obj [],
      reasoning = Str (''Error selecting tables and columns: '' @ message e),
      confidence = Num 0\<rparr>"

definition selectTablesAndColumns :: "engine \<Rightarrow> string \<Rightarrow> state \<Rightarrow> table_selection \<times> state" where
  "selectTablesAndColumns env userPrompt s =
     (if length (map fst (tableMetadata s)) = 0 then
        (\<lparr>success = None, error = None, selectedTables = Arr [], selectedColumns = Obj [],
          reasoning = Str ''No table metadata available'', confidence = Undefined\<rparr>, s)
      else
        (case selectTablesAndColumns_try env (table_prompt userPrompt (tableMetadata s)) s of
           (Inr r, s') \<Rightarrow> (r, s')
         | (Inl e, s') \<Rightarrow> (selectTablesAndColumns_catch e, s')))"

section \<open>QueryGenerator\<close>

text \<open>
  From \<open>components/queryGenerator.js\<close> (the second half of
  \<open>src/src/components/querySelector.js\<close>). The selections it is given are whatever
  the selectors read from the model's JSON, so they are values of any shape.
\<close>

record generation_metadata =
  userPrompt :: string
  selectedQuery :: jsval
  selectedTables :: jsval
  selectedColumns :: jsval

record query_generation = step_result +
  query :: "string option"
  metadata :: generation_metadata

text \<open>
  \<open>selectedColumns[table]\<close>: the base is checked first, then the key is converted
  and the property read.
\<close>

definition js_member :: "engine \<Rightarrow> jsval \<Rightarrow> jsval \<Rightarrow> exn + member" where
  "js_member env base k =
     (let shown = (case ToString (Number_toString env) k of Inr key \<Rightarrow> key | Inl e \<Rightarrow> [])
      in case base of
        Undefined \<Rightarrow>
          Inl (TypeError (''Cannot read properties of undefined (reading '' @ [CHR 0x27] @ shown @ [CHR 0x27] @ '')''))
      | Null \<Rightarrow>
          Inl (TypeError (''Cannot read properties of null (reading '' @ [CHR 0x27] @ shown @ [CHR 0x27] @ '')''))
      | Obj ps \<Rightarrow>
          (case ToString (Number_toString env) k of
             Inl e \<Rightarrow> Inl e
           | Inr key \<Rightarrow>
               (case map_of ps key of
                  Some v \<Rightarrow> Inr (Value v)
                | None \<Rightarrow> Inr (builtin_get env base key)))
      | _ \<Rightarrow>
          (case ToString (Number_toString env) k of
             Inl e \<Rightarrow> Inl e
           | Inr key \<Rightarrow> Inr (builtin_get env base key)))"

text \<open>\<open>m || []\<close>.\<close>

definition or_empty_array :: "member \<Rightarrow> member" where
  "or_empty_array m =
     (case m of Value v \<Rightarrow> if truthy v then Value v else Value (Arr []) | Builtin \<Rightarrow> Builtin)"

text \<open>\<open>columns.join(', ')\<close>: only an array has a \<open>join\<close> to call.\<close>

definition join_columns :: "engine \<Rightarrow> member \<Rightarrow> exn + string" where
  "join_columns env m =
     (case m of
        Value (Arr xs) \<Rightarrow> js_join (Number_toString env) '', '' xs
      | _ \<Rightarrow> Inl (TypeError ''columns.join is not a function''))"

text \<open>The callback of \<open>selectedTables.map\<close>.\<close>

definition table_info :: "engine \<Rightarrow> jsval \<Rightarrow> jsval \<Rightarrow> exn + string" where
  "table_info env selCols table =
     (case js_member env selCols table of Inl e \<Rightarrow> Inl e | Inr m \<Rightarrow>
     (case ToString (Number_toString env) table of Inl e \<Rightarrow> Inl e | Inr t \<Rightarrow>
     (case join_columns env (or_empty_array m) of Inl e \<Rightarrow> Inl e | Inr cols \<Rightarrow>
        Inr (''Table: '' @ t @ ''\<newline>Columns: '' @ cols))))"

text \<open>
  \<open>selectedTables.map(...).join('\n\n')\<close>. Only an array has a \<open>map\<close> to call: a
  parsed value holds no function.
\<close>

definition tablesInfo :: "engine \<Rightarrow> jsval \<Rightarrow> jsval \<Rightarrow> exn + string" where
  "tablesInfo env selTables selCols =
     (case selTables of
        Arr ts \<Rightarrow>
          (case sequence_exn (map (table_info env selCols) ts) of
             Inl e \<Rightarrow> Inl e
           | Inr infos \<Rightarrow> Inr (join_strs ''\<newline>\<newline>'' infos))
      | Undefined \<Rightarrow> Inl (TypeError ''Cannot read properties of undefined (reading 'map')'')
      | Null \<Rightarrow> Inl (TypeError ''Cannot read properties of null (reading 'map')'')
      | _ \<Rightarrow> Inl (TypeError ''selectedTables.map is not a function''))"

definition generation_prompt_text :: "string \<Rightarrow> string \<Rightarrow> string \<Rightarrow> string" where
  \<open>generation_prompt_text request reference info =
     ''\<newline>'' @
     ''You are an expert Redshift SQL developer. Generate a complete, optimized Redshift SQL query based on the provided information.\<newline>'' @
     ''\<newline>'' @
     ''User Request: "'' @
     request @
     ''"\<newline>'' @
     ''\<newline>'' @
     ''Reference Query Pattern: '' @
     reference @
     ''\<newline>'' @
     ''\<newline>'' @
     ''Available Tables and Columns:\<newline>'' @
     info @
     ''\<newline>'' @
     ''\<newline>'' @
     ''Requirements:\<newline>'' @
     ''1. Generate a complete, syntactically correct Redshift SQL query\<newline>'' @
     ''2. Use appropriate Redshift-specific functions and optimizations where applicable\<newline>'' @
     ''3. Include proper JOINs if multiple tables are needed\<newline>'' @
     ''4. Add appropriate WHERE clauses based on the user request\<newline>'' @
     ''5. Use proper column aliases for readability\<newline>'' @
     ''6. Ensure the query follows Redshift best practices\<newline>'' @
     ''\<newline>'' @
     ''Respond with ONLY the SQL query, no additional text or formatting.\<newline>''\<close>

text \<open>
  Everything \<open>generateRedshiftQuery\<close> evaluates before its \<open>try\<close>: the table list,
  then the template with \<open>${selectedQuery || 'No reference query provided'}\<close>.
\<close>

definition generation_prompt :: "engine \<Rightarrow> string \<Rightarrow> jsval \<Rightarrow> jsval \<Rightarrow> jsval \<Rightarrow> exn + string" where
  "generation_prompt env prompt selQuery selTables selCols =
     (case tablesInfo env selTables selCols of Inl e \<Rightarrow> Inl e | Inr info \<Rightarrow>
     (case ToString (Number_toString env)
             (if truthy selQuery then selQuery else Str ''No reference query provided'') of
        Inl e \<Rightarrow> Inl e
      | Inr reference \<Rightarrow> Inr (generation_prompt_text prompt reference info)))"

text \<open>\<open>Inl\<close>: the call throws to its caller. \<open>Inr\<close>: it returns the object.\<close>

definition generateRedshiftQuery ::
  "engine \<Rightarrow> string \<Rightarrow> jsval \<Rightarrow> jsval \<Rightarrow> jsval \<Rightarrow> state \<Rightarrow> (exn + query_generation) \<times> state" where
  "generateRedshiftQuery env prompt selQuery selTables selCols s =
     (let md = \<lparr>userPrompt = prompt, selectedQuery = selQuery, selectedTables = selTables,
                selectedColumns = selCols\<rparr>
      in case generation_prompt env prompt selQuery selTables selCols of
           Inl e \<Rightarrow> (Inl e, s)
         | Inr p \<Rightarrow>
             (case callOllama env p None s of
                (Inr response, s') \<Rightarrow>
                  (Inr \<lparr>success = Some True, error = None, query = Some (js_trim response),
                        metadata = md\<rparr>, s')
              | (Inl e, s') \<Rightarrow>
                  (Inr \<lparr>success = Some False, error = Some (message e), query = None,
                        metadata = md\<rparr>, s')))"

record basic_checks =
  hasSelect :: bool
  hasFrom :: bool
  properSyntax :: bool
  notEmpty :: bool

record validation_result =
  isValid :: bool
  checks :: basic_checks
  suggestions :: "string list"

definition generateSuggestions :: "basic_checks \<Rightarrow> string list" where
  "generateSuggestions c =
     (if \<not> hasSelect c then [''Query should include a SELECT statement''] else []) @
     (if \<not> hasFrom c then [''Query should include a FROM clause''] else []) @
     (if \<not> notEmpty c then [''Query cannot be empty''] else [])"

definition validateQuery :: "string \<Rightarrow> validation_result" where
  "validateQuery q =
     (let basicChecks =
            \<lparr>hasSelect = regex_test_i ''SELECT'' q,
             hasFrom = regex_test_i ''FROM'' q,
             properSyntax = (endsWith (js_trim q) '';'' \<or> \<not> js_includes q '';''),
             notEmpty = (length (js_trim q) > 0)\<rparr>
      in \<lparr>isValid = list_all (\<lambda>check. check)
                     [hasSelect basicChecks, hasFrom basicChecks, properSyntax basicChecks,
                      notEmpty basicChecks],
          checks = basicChecks,
          suggestions = generateSuggestions basicChecks\<rparr>)"

section \<open>AIAgent\<close>

text \<open>
  From \<open>src/src/aiAgent.js\<close>. \<open>steps\<close> gains one property per step that returned;
  \<open>finalQuery\<close> starts as \<open>null\<close>, and \<open>error\<close> is written by the \<open>catch\<close> only.
\<close>

record pipeline_steps =
  refinement :: "refinement_result option"
  querySelection :: "query_selection option"
  tableSelection :: "table_selection option"
  queryGeneration :: "query_generation option"
  validation :: "validation_result option"

record pipeline_result =
  userInput :: string
  steps :: pipeline_steps
  finalQuery :: "string option"
  success :: bool
  processingTime :: int
  error :: "string option"

text \<open>
  The constructor: \<open>config.exampleQueries || []\<close>, \<open>config.tableMetadata || {}\<close>.
  A table-metadata object is given as the list of its own enumerable properties, in
  the order \<open>Object.entries\<close> lists them.
\<close>

definition AIAgent :: "example_query list option \<Rightarrow> (string \<times> table_metadata) list option \<Rightarrow> state" where
  "AIAgent exs tm =
     \<lparr>exampleQueries = (case exs of Some xs \<Rightarrow> xs | None \<Rightarrow> []),
      tableMetadata = (case tm of Some t \<Rightarrow> t | None \<Rightarrow> []),
      calls = []\<rparr>"

text \<open>
  The \<open>try\<close> block of \<open>processQuery\<close>. It returns what was thrown, if anything, and
  \<open>result\<close> as the block left it. \<open>startTime\<close> and \<open>endTime\<close> are the two readings
  of \<open>Date.now()\<close>, on entry and on the way out. Console output is not modelled.
\<close>

definition processQuery_try ::
  "engine \<Rightarrow> int \<Rightarrow> int \<Rightarrow> pipeline_result \<Rightarrow> state \<Rightarrow> (exn option \<times> pipeline_result) \<times> state" where
  "processQuery_try env startTime endTime result s =
     (case refineUserInput env (userInput result) s of (r1, s1) \<Rightarrow>
     (let result1 = result\<lparr>steps := (steps result)\<lparr>refinement := Some r1\<rparr>\<rparr> in
      if failed r1 then
        ((Some (Error (''Input refinement failed: '' @ error_text r1)), result1), s1)
      else
     (case selectBestQuery env (refined r1) s1 of (r2, s2) \<Rightarrow>
     (let result2 = result1\<lparr>steps := (steps result1)\<lparr>querySelection := Some r2\<rparr>\<rparr> in
     (case selectTablesAndColumns env (refined r1) s2 of (r3, s3) \<Rightarrow>
     (let result3 = result2\<lparr>steps := (steps result2)\<lparr>tableSelection := Some r3\<rparr>\<rparr> in
      if failed r3 then
        ((Some (Error (''Table selection failed: '' @ error_text r3)), result3), s3)
      else
     (case generateRedshiftQuery env (refined r1) (query_selection.selectedQuery r2)
             (table_selection.selectedTables r3) (table_selection.selectedColumns r3) s3 of
        (Inl e, s4) \<Rightarrow> ((Some e, result3), s4)
      | (Inr r4, s4) \<Rightarrow>
     (let result4 = result3\<lparr>steps := (steps result3)\<lparr>queryGeneration := Some r4\<rparr>\<rparr> in
      if failed r4 then
        ((Some (Error (''Query generation failed: '' @ error_text r4)), result4), s4)
      else
     (case query r4 of
        None \<Rightarrow>
          ((Some (TypeError ''Cannot read properties of null (reading 'trim')''), result4), s4)
      | Some q \<Rightarrow>
     (let result5 = result4\<lparr>steps := (steps result4)\<lparr>validation := Some (validateQuery q)\<rparr>\<rparr>
      in ((None, result5\<lparr>finalQuery := Some q, success := True,
                         processingTime := endTime - startTime\<rparr>), s4)))))))))))"

definition processQuery ::
  "engine \<Rightarrow> string \<Rightarrow> int \<Rightarrow> int \<Rightarrow> state \<Rightarrow> pipeline_result \<times> state" where
  "processQuery env input startTime endTime s =
     (let result =
            \<lparr>userInput = input,
             steps = \<lparr>refinement = None, querySelection = None, tableSelection = None,
                      queryGeneration = None, validation = None\<rparr>,
             finalQuery = None, success = False, processingTime = 0, error = None\<rparr>
      in case processQuery_try env startTime endTime result s of
           ((None, r), s') \<Rightarrow> (r, s')
         | ((Some e, r), s') \<Rightarrow>
             (r\<lparr>success := False, error := Some (message e),
                processingTime := endTime - startTime\<rparr>, s'))"

section \<open>Vocabulary of the specification\<close>

text \<open>A step that ran and reported \<open>success: true\<close>.\<close>

definition step_succeeded :: "'a step_result_scheme option \<Rightarrow> bool" where
  "step_succeeded r = (case r of Some x \<Rightarrow> step_result.success x = Some True | None \<Rightarrow> False)"

text \<open>The three steps the orchestrator gates on.\<close>

definition required_steps_succeeded :: "pipeline_steps \<Rightarrow> bool" where
  "required_steps_succeeded st =
     (step_succeeded (refinement st) \<and> step_succeeded (tableSelection st) \<and>
      step_succeeded (queryGeneration st))"

text \<open>A failure-flagged result: \<open>success: false\<close> together with an \<open>error\<close> string.\<close>

definition failure_flagged :: "'a step_result_scheme \<Rightarrow> bool" where
  "failure_flagged r = (step_result.success r = Some False \<and> step_result.error r \<noteq> None)"

text \<open>
  What makes the \<open>try\<close> block of a selector throw: the model call throws, or its
  reply is not JSON, or the reply parses to \<open>null\<close>, of which no property can be read.
\<close>

definition reply_unusable :: "engine \<Rightarrow> exn + string \<Rightarrow> bool" where
  "reply_unusable env outcome =
     (case outcome of
        Inl e \<Rightarrow> True
      | Inr response \<Rightarrow>
          (case JSON_parse env response of
             Inl e \<Rightarrow> True
           | Inr v \<Rightarrow> v = Null \<or> v = Undefined))"

text \<open>
  What the specification asks of every step result: a boolean \<open>success\<close>, and an
  \<open>error\<close> string beside a \<open>success\<close> that is false.
\<close>

definition carries_flags :: "'a step_result_scheme \<Rightarrow> bool" where
  "carries_flags r =
     (case step_result.success r of Some b \<Rightarrow> b \<or> step_result.error r \<noteq> None | None \<Rightarrow> False)"

text \<open>
  The four checks of \<open>validateQuery\<close> in the specification's words: the text contains
  the word, whatever the case of its letters; its last character that is not white
  space is a semicolon; it has no semicolon; it has a character that is not white
  space.
\<close>

definition spec_contains_ci :: "string \<Rightarrow> string \<Rightarrow> bool" where
  "spec_contains_ci w q =
     (\<exists>pre mid post. q = pre @ mid @ post \<and> map canonicalize mid = map canonicalize w)"

definition spec_ends_with_semicolon :: "string \<Rightarrow> bool" where
  "spec_ends_with_semicolon q = (\<exists>pre post. q = pre @ '';'' @ post \<and> list_all is_space post)"

definition spec_no_semicolon :: "string \<Rightarrow> bool" where
  "spec_no_semicolon q = (CHR '';'' \<notin> set q)"

definition spec_not_blank :: "string \<Rightarrow> bool" where
  "spec_not_blank q = (\<exists>c \<in> set q. \<not> is_space c)"

section \<open>Concrete runs\<close>

text \<open>
  A model service that gives its replies in order and is unreachable once they are
  used up, on a runtime whose \<open>Object.prototype\<close> has the usual properties.
\<close>

definition scripted_engine :: "(exn + string) list \<Rightarrow> (string \<Rightarrow> exn + jsval) \<Rightarrow> engine" where
  "scripted_engine replies parse =
     \<lparr>ollama_chat = (\<lambda>k m p. if k < length replies then replies ! k
                              else Inl (Error ''fetch failed'')),
      OLLAMA_MODEL = None,
      JSON_parse = parse,
      Number_toString = (\<lambda>n. if n = 0 then ''0'' else ''90''),
      builtin_get = (\<lambda>base key.
        if key \<in> set [''constructor'', ''toString'', ''valueOf'', ''hasOwnProperty'',
                        ''isPrototypeOf'', ''propertyIsEnumerable'', ''toLocaleString'',
                        ''__proto__'']
        then Builtin else Value Undefined)\<rparr>"

definition selection_reply :: string where
  \<open>selection_reply = ''{"selectedQueryIndex": 1, "selectedQuery": "SELECT 1;", "reasoning": "only one"}''\<close>

definition tables_reply :: string where
  \<open>tables_reply = ''{"selectedTables": ["orders"], "selectedColumns": {"orders": ["order_id"]}, "confidence": 90}''\<close>

text \<open>\<open>JSON.parse\<close> on the replies used below; anything else is taken not to be JSON.\<close>

definition demo_parse :: "string \<Rightarrow> exn + jsval" where
  "demo_parse t =
     (if t = selection_reply then
        Inr (Obj [(''selectedQueryIndex'', Num 1), (''selectedQuery'', Str ''SELECT 1;''),
                  (''reasoning'', Str ''only one'')])
      else if t = tables_reply then
        Inr (Obj [(''selectedTables'', Arr [Str ''orders'']),
                  (''selectedColumns'', Obj [(''orders'', Arr [Str ''order_id''])]),
                  (''confidence'', Num 90)])
      else if t = ''{}'' then Inr (Obj [])
      else Inl (SyntaxError ''Unexpected token''))"

definition orders_table :: table_metadata where
  "orders_table =
     \<lparr>table_metadata.description = Some ''Order transactions table'',
      columns = [\<lparr>name = ''order_id'', type = ''INTEGER'',
                  column.description = Some ''Unique order identifier''\<rparr>]\<rparr>"

definition orders_agent :: state where
  "orders_agent = addTableMetadata ''orders'' orders_table (AIAgent None None)"

definition demo_agent :: state where
  "demo_agent = addExampleQuery ''SELECT 1;'' ''The constant one'' orders_agent"

section \<open>Properties\<close>

subsection \<open>What a model call and a step do to the state\<close>

lemma callOllama_catalogs:
  "exampleQueries (snd (callOllama env p m s)) = exampleQueries s"
  "tableMetadata (snd (callOllama env p m s)) = tableMetadata s"
  by (simp_all add: callOllama_def Let_def split: sum.splits)

lemma callOllama_frame:
  assumes "callOllama env p m s = (x, s')"
  shows "exampleQueries s' = exampleQueries s" and "tableMetadata s' = tableMetadata s"
    and "calls s' = calls s @ [(model_name env m, p)]"
  using assms by (auto simp: callOllama_def Let_def split: sum.splits)

lemma callOllama_calls:
  "calls (snd (callOllama env p m s)) = calls s @ [(model_name env m, p)]"
  by (simp add: callOllama_def Let_def split: sum.splits)

lemma refineUserInput_state:
  "snd (refineUserInput env u s) = snd (callOllama env (refinement_prompt u) None s)"
  by (simp add: refineUserInput_def split: prod.splits sum.splits)

lemma refineUserInput_result:
  "fst (refineUserInput env u s) =
     (case fst (callOllama env (refinement_prompt u) None s) of
        Inr response \<Rightarrow> \<lparr>step_result.success = Some True, step_result.error = None, original = u, refined = response\<rparr>
      | Inl e \<Rightarrow> \<lparr>step_result.success = Some False, step_result.error = Some (message e), original = u, refined = u\<rparr>)"
  by (simp add: refineUserInput_def split: prod.splits sum.splits)

lemma selectBestQuery_catalogs:
  "exampleQueries (snd (selectBestQuery env p s)) = exampleQueries s"
  "tableMetadata (snd (selectBestQuery env p s)) = tableMetadata s"
  using callOllama_catalogs [of env "selection_prompt p (exampleQueries s)" None s]
  by (auto simp: selectBestQuery_def selectBestQuery_try_def split: prod.splits sum.splits)

lemma selectTablesAndColumns_catalogs:
  "exampleQueries (snd (selectTablesAndColumns env p s)) = exampleQueries s"
  "tableMetadata (snd (selectTablesAndColumns env p s)) = tableMetadata s"
  using callOllama_catalogs [of env "table_prompt p (tableMetadata s)" None s]
  by (auto simp: selectTablesAndColumns_def selectTablesAndColumns_try_def split: prod.splits sum.splits)

lemma generateRedshiftQuery_catalogs:
  "exampleQueries (snd (generateRedshiftQuery env p q t c s)) = exampleQueries s"
  "tableMetadata (snd (generateRedshiftQuery env p q t c s)) = tableMetadata s"
  by (auto simp: generateRedshiftQuery_def Let_def split: prod.splits sum.splits
      dest: callOllama_frame)

lemma generateRedshiftQuery_query:
  assumes "generateRedshiftQuery env p q t c s = (Inr r, s')"
  shows "(query r \<noteq> None) = (step_result.success r = Some True)" and "failed r = (query r = None)"
  using assms
  by (auto simp: generateRedshiftQuery_def Let_def failed_def split: prod.splits sum.splits)

lemma processQuery_state_catalogs:
  "exampleQueries (snd (processQuery env u t0 t1 s)) = exampleQueries s \<and>
   tableMetadata (snd (processQuery env u t0 t1 s)) = tableMetadata s"
proof -
  obtain r1 s1 where a: "refineUserInput env u s = (r1, s1)" by force
  obtain r2 s2 where b: "selectBestQuery env (refined r1) s1 = (r2, s2)" by force
  obtain r3 s3 where c: "selectTablesAndColumns env (refined r1) s2 = (r3, s3)" by force
  obtain o4 s4 where d: "generateRedshiftQuery env (refined r1) (query_selection.selectedQuery r2)
             (table_selection.selectedTables r3) (table_selection.selectedColumns r3) s3 = (o4, s4)" by force
  have 1: "exampleQueries s1 = exampleQueries s \<and> tableMetadata s1 = tableMetadata s"
    using a refineUserInput_state [of env u s] callOllama_catalogs [of env "refinement_prompt u" None s] by simp
  have 2: "exampleQueries s2 = exampleQueries s1 \<and> tableMetadata s2 = tableMetadata s1"
    using b selectBestQuery_catalogs [of env "refined r1" s1] by simp
  have 3: "exampleQueries s3 = exampleQueries s2 \<and> tableMetadata s3 = tableMetadata s2"
    using c selectTablesAndColumns_catalogs [of env "refined r1" s2] by simp
  have 4: "exampleQueries s4 = exampleQueries s3 \<and> tableMetadata s4 = tableMetadata s3"
    using d generateRedshiftQuery_catalogs [of env "refined r1" "query_selection.selectedQuery r2"
        "table_selection.selectedTables r3" "table_selection.selectedColumns r3" s3] by simp
  show ?thesis
    using a b c d 1 2 3 4
    by (simp add: processQuery_def processQuery_try_def Let_def split: sum.splits option.splits)
qed

subsection \<open>Setting a property touches no other name\<close>

lemma insert_index_other:
  "k \<noteq> n \<Longrightarrow> map_of (insert_index i n v ps) k = map_of ps k"
  by (induction ps) (auto split: option.splits)

lemma overwrite_other:
  "k \<noteq> n \<Longrightarrow>
     map_of (map (\<lambda>(k', v'). if k' = n then (n, v) else (k', v')) ps) k = map_of ps k"
  by (induction ps) auto

lemma set_property_other:
  "k \<noteq> n \<Longrightarrow> map_of (set_property n v ps) k = map_of ps k"
  by (simp add: set_property_def insert_index_other overwrite_other map_add_def
      split: option.splits)

subsection \<open>The checks of validateQuery\<close>

lemma matches_here_iff:
  "matches_here pat s = (\<exists>mid post. s = mid @ post \<and> map canonicalize mid = map canonicalize pat)"
proof (induction pat s rule: matches_here.induct)
  case (1 s)
  then show ?case by simp
next
  case (2 p ps)
  then show ?case by simp
next
  case (3 p ps c cs)
  show ?case
  proof
    assume "matches_here (p # ps) (c # cs)"
    then obtain mid post where "cs = mid @ post" "map canonicalize mid = map canonicalize ps"
      and "canonicalize p = canonicalize c"
      using 3 by auto
    then have "c # cs = (c # mid) @ post \<and> map canonicalize (c # mid) = map canonicalize (p # ps)"
      by simp
    then show "\<exists>mid post. c # cs = mid @ post \<and> map canonicalize mid = map canonicalize (p # ps)"
      by blast
  next
    assume "\<exists>mid post. c # cs = mid @ post \<and> map canonicalize mid = map canonicalize (p # ps)"
    then obtain mid post where m: "c # cs = mid @ post" "map canonicalize mid = map canonicalize (p # ps)"
      by blast
    then obtain m ms where "mid = m # ms" by (cases mid) auto
    with m show "matches_here (p # ps) (c # cs)"
      using 3 by auto
  qed
qed

lemma regex_test_i_iff: "regex_test_i pat s = spec_contains_ci pat s"
proof (induction s)
  case Nil
  then show ?case by (auto simp: spec_contains_ci_def matches_here_iff)
next
  case (Cons c cs)
  show ?case
  proof
    assume "regex_test_i pat (c # cs)"
    then consider "matches_here pat (c # cs)" | "spec_contains_ci pat cs"
      using Cons by auto
    then show "spec_contains_ci pat (c # cs)"
    proof cases
      case 1
      then obtain mid post where "c # cs = [] @ mid @ post" "map canonicalize mid = map canonicalize pat"
        by (auto simp: matches_here_iff)
      then show ?thesis unfolding spec_contains_ci_def by blast
    next
      case 2
      then obtain pre mid post where "cs = pre @ mid @ post" "map canonicalize mid = map canonicalize pat"
        by (auto simp: spec_contains_ci_def)
      then have "c # cs = (c # pre) @ mid @ post \<and> map canonicalize mid = map canonicalize pat"
        by simp
      then show ?thesis unfolding spec_contains_ci_def by blast
    qed
  next
    assume "spec_contains_ci pat (c # cs)"
    then obtain pre mid post where d: "c # cs = pre @ mid @ post" "map canonicalize mid = map canonicalize pat"
      by (auto simp: spec_contains_ci_def)
    show "regex_test_i pat (c # cs)"
    proof (cases pre)
      case Nil
      with d have "matches_here pat (c # cs)" by (auto simp: matches_here_iff)
      then show ?thesis by simp
    next
      case (Cons a as)
      with d have "cs = as @ mid @ post" by simp
      with d have "spec_contains_ci pat cs" unfolding spec_contains_ci_def by blast
      then show ?thesis using Cons.IH by simp
    qed
  qed
qed

lemma semicolon_not_space: "\<not> is_space CHR '';''"
  by (simp add: is_space_def)

lemma js_includes_semicolon: "js_includes q '';'' = (CHR '';'' \<in> set q)"
  by (induction q) auto

lemma starts_with_single: "starts_with s [c] = (\<exists>t. s = c # t)"
  by (cases s) auto

lemma trimmed_not_blank: "(length (js_trim q) > 0) = spec_not_blank q"
proof -
  have "(js_trim q = []) = (\<forall>x \<in> set (dropWhile is_space q). is_space x)"
    by (simp add: js_trim_def dropWhile_eq_Nil_conv)
  also have "\<dots> = (dropWhile is_space q = [])"
    by (metis dropWhile_eq_Nil_conv dropWhile_idem)
  also have "\<dots> = (\<forall>x \<in> set q. is_space x)"
    by (simp add: dropWhile_eq_Nil_conv)
  finally show ?thesis by (auto simp: spec_not_blank_def)
qed

lemma trimmed_ends_with_semicolon: "endsWith (js_trim q) '';'' = spec_ends_with_semicolon q"
proof
  assume "endsWith (js_trim q) '';''"
  then obtain t where t: "dropWhile is_space (rev (dropWhile is_space q)) = CHR '';'' # t"
    by (auto simp: endsWith_def js_trim_def starts_with_single)
  have "rev (dropWhile is_space q) =
          takeWhile is_space (rev (dropWhile is_space q)) @ CHR '';'' # t"
    using t takeWhile_dropWhile_id [of is_space "rev (dropWhile is_space q)"] by simp
  then have "dropWhile is_space q =
          rev t @ '';'' @ rev (takeWhile is_space (rev (dropWhile is_space q)))"
    by (metis append_Cons append_Nil rev.simps(2) rev_append rev_rev_ident append_assoc)
  then have "q = (takeWhile is_space q @ rev t) @ '';'' @
                   rev (takeWhile is_space (rev (dropWhile is_space q)))"
    using takeWhile_dropWhile_id [of is_space q] by (metis append_assoc)
  moreover have "list_all is_space (rev (takeWhile is_space (rev (dropWhile is_space q))))"
    by (simp add: list_all_iff) (meson set_takeWhileD)
  ultimately show "spec_ends_with_semicolon q"
    unfolding spec_ends_with_semicolon_def by blast
next
  assume "spec_ends_with_semicolon q"
  then obtain pre post where q: "q = pre @ '';'' @ post" and sp: "list_all is_space post"
    by (auto simp: spec_ends_with_semicolon_def)
  obtain pre' where d: "dropWhile is_space q = pre' @ CHR '';'' # post"
  proof (cases "\<forall>x \<in> set pre. is_space x")
    case True
    then have "dropWhile is_space q = [] @ CHR '';'' # post"
      using q semicolon_not_space by (simp add: dropWhile_append)
    then show ?thesis using that by blast
  next
    case False
    then have "dropWhile is_space q = dropWhile is_space pre @ CHR '';'' # post"
      using q by (auto simp: dropWhile_append)
    then show ?thesis using that by blast
  qed
  have "dropWhile is_space (rev (dropWhile is_space q)) = CHR '';'' # rev pre'"
    using d sp semicolon_not_space by (simp add: dropWhile_append list_all_iff)
  then show "endsWith (js_trim q) '';''"
    by (simp add: endsWith_def js_trim_def)
qed

subsection \<open>When a step flags a failure, and when it throws\<close>

lemma refineUserInput_flagged:
  "failure_flagged (fst (refineUserInput env u s)) =
     isl (fst (callOllama env (refinement_prompt u) None s))"
  by (simp add: refineUserInput_result failure_flagged_def split: sum.splits)

lemma selection_of_throws: "isl (selection_of v) = (v = Null \<or> v = Undefined)"
  by (cases v) (simp_all add: selection_of_def)

lemma tables_of_throws: "isl (tables_of v) = (v = Null \<or> v = Undefined)"
  by (cases v) (simp_all add: tables_of_def)

lemma selectBestQuery_try_throws:
  "isl (fst (selectBestQuery_try env pr s)) = reply_unusable env (fst (callOllama env pr None s))"
  by (auto simp: selectBestQuery_try_def reply_unusable_def selection_of_throws
      split: prod.splits sum.splits)

lemma selectTablesAndColumns_try_throws:
  "isl (fst (selectTablesAndColumns_try env pr s)) =
     reply_unusable env (fst (callOllama env pr None s))"
  by (auto simp: selectTablesAndColumns_try_def reply_unusable_def tables_of_throws
      split: prod.splits sum.splits)

lemma selectBestQuery_flagged:
  assumes "exampleQueries s \<noteq> []"
  shows "failure_flagged (fst (selectBestQuery env p s)) =
     reply_unusable env (fst (callOllama env (selection_prompt p (exampleQueries s)) None s))"
proof -
  have "failure_flagged (fst (selectBestQuery env p s)) =
          isl (fst (selectBestQuery_try env (selection_prompt p (exampleQueries s)) s))"
    using assms
    by (auto simp: selectBestQuery_def selectBestQuery_try_def selectBestQuery_catch_def
        selection_of_def failure_flagged_def split: prod.splits sum.splits)
  then show ?thesis by (simp add: selectBestQuery_try_throws)
qed

lemma selectTablesAndColumns_flagged:
  assumes "tableMetadata s \<noteq> []"
  shows "failure_flagged (fst (selectTablesAndColumns env p s)) =
     reply_unusable env (fst (callOllama env (table_prompt p (tableMetadata s)) None s))"
proof -
  have "failure_flagged (fst (selectTablesAndColumns env p s)) =
          isl (fst (selectTablesAndColumns_try env (table_prompt p (tableMetadata s)) s))"
    using assms
    by (auto simp: selectTablesAndColumns_def selectTablesAndColumns_try_def
        selectTablesAndColumns_catch_def tables_of_def failure_flagged_def
        split: prod.splits sum.splits)
  then show ?thesis by (simp add: selectTablesAndColumns_try_throws)
qed

lemma generateRedshiftQuery_throws:
  "isl (fst (generateRedshiftQuery env p q t c s)) = isl (generation_prompt env p q t c)"
  by (auto simp: generateRedshiftQuery_def Let_def split: prod.splits sum.splits)

lemma generateRedshiftQuery_thrown:
  assumes "isl (fst (generateRedshiftQuery env p q t c s))"
  shows "snd (generateRedshiftQuery env p q t c s) = s"
  using assms
  by (auto simp: generateRedshiftQuery_def Let_def split: prod.splits sum.splits)

lemma generateRedshiftQuery_returned:
  assumes "\<not> isl (fst (generateRedshiftQuery env p q t c s))"
  shows "\<exists>pr. calls (snd (generateRedshiftQuery env p q t c s)) =
                 calls s @ [(model_name env None, pr)] \<and>
              failure_flagged (projr (fst (generateRedshiftQuery env p q t c s))) =
                isl (ollama_chat env (length (calls s)) (model_name env None) pr)"
proof -
  obtain pr where pr: "generation_prompt env p q t c = Inr pr"
    using assms by (cases "generation_prompt env p q t c")
      (auto simp: generateRedshiftQuery_def Let_def)
  have "calls (snd (generateRedshiftQuery env p q t c s)) =
          calls s @ [(model_name env None, pr)] \<and>
        failure_flagged (projr (fst (generateRedshiftQuery env p q t c s))) =
          isl (ollama_chat env (length (calls s)) (model_name env None) pr)"
    using pr
    by (auto simp: generateRedshiftQuery_def callOllama_def Let_def failure_flagged_def
        split: sum.splits)
  then show ?thesis by blast
qed

lemma processQuery_error_iff:
  "pipeline_result.success (fst (processQuery env u t0 t1 s)) =
     (pipeline_result.error (fst (processQuery env u t0 t1 s)) = None)"
proof -
  obtain r1 s1 where a: "refineUserInput env u s = (r1, s1)" by force
  obtain r2 s2 where b: "selectBestQuery env (refined r1) s1 = (r2, s2)" by force
  obtain r3 s3 where c: "selectTablesAndColumns env (refined r1) s2 = (r3, s3)" by force
  obtain o4 s4 where d: "generateRedshiftQuery env (refined r1) (query_selection.selectedQuery r2)
             (table_selection.selectedTables r3) (table_selection.selectedColumns r3) s3 = (o4, s4)" by force
  show ?thesis
    using a b c d
    by (auto simp: processQuery_def processQuery_try_def Let_def split: option.splits sum.splits)
qed

lemma sequence_exn_Inr:
  assumes "\<forall>x \<in> set xs. f x = Inr (g x)"
  shows "sequence_exn (map f xs) = Inr (map g xs)"
  using assms by (induction xs) auto

lemma js_join_strings: "js_join nts sep (map Str ss) = Inr (join_strs sep ss)"
  using sequence_exn_Inr [of "map Str ss" "\<lambda>x. case x of Undefined \<Rightarrow> Inr [] | Null \<Rightarrow> Inr [] | _ \<Rightarrow> ToString nts x"
      "\<lambda>x. case x of Str s \<Rightarrow> s | _ \<Rightarrow> []"]
  by (auto simp: js_join_def comp_def)

lemma table_info_well_typed:
  assumes "map_of props n = Some (Arr (map Str cols))"
  shows "table_info env (Obj props) (Str n) =
           Inr (''Table: '' @ n @ ''\<newline>Columns: '' @ join_strs '', '' cols)"
  using assms
  by (simp add: table_info_def js_member_def or_empty_array_def join_columns_def js_join_strings)

subsection \<open>Facts about the concrete runs\<close>

lemma set_property_Nil:
  "set_property k v [] = (if k = ''__proto__'' then [] else [(k, v)])"
  by (simp add: set_property_def split: option.splits)

lemma orders_agent_state:
  "orders_agent =
     \<lparr>exampleQueries = [], tableMetadata = [(''orders'', orders_table)], calls = []\<rparr>"
  by (simp add: orders_agent_def addTableMetadata_def AIAgent_def set_property_Nil)

lemma demo_agent_catalogs:
  "exampleQueries demo_agent = [\<lparr>example_query.query = ''SELECT 1;'', example_query.description = ''The constant one''\<rparr>]"
  "tableMetadata demo_agent = [(''orders'', orders_table)]"
  "calls demo_agent = []"
  by (simp_all add: demo_agent_def orders_agent_state addExampleQuery_def)

lemma offline_call:
  "callOllama (scripted_engine [] parse) pr None s =
     (Inl (Error ''Ollama API call failed: fetch failed''), s\<lparr>calls := calls s @ [(''llama3.1'', pr)]\<rparr>)"
  by (simp add: callOllama_def scripted_engine_def Let_def model_name_def)

subsection \<open>The claims\<close>

text \<open>
  C1. Whatever the model service and the runtime do, name what the steps return when
  run in the orchestrator's order, each on the state the one before left:
  \<open>refineUserInput\<close>, \<open>selectBestQuery\<close>, \<open>selectTablesAndColumns\<close>,
  \<open>generateRedshiftQuery\<close>. The three required steps all succeeded when the
  refinement and the table selection return \<open>success: true\<close> and the generation
  returns, rather than throws, with \<open>success: true\<close>. Then the result of
  \<open>processQuery\<close> has \<open>success\<close> true exactly in that case, a \<open>finalQuery\<close> other than
  \<open>null\<close> exactly in that case, and that \<open>finalQuery\<close> is the generation's \<open>query\<close>;
  the steps it records are the results those calls returned, as far as the run got;
  and \<open>processingTime\<close> is the time elapsed between the two clock readings, on the
  success path and on the failure path alike.
\<close>

theorem processQuery_invariant:
  "(let (r1, s1) = refineUserInput env u s;
        (r2, s2) = selectBestQuery env (refined r1) s1;
        (r3, s3) = selectTablesAndColumns env (refined r1) s2;
        (o4, s4) = generateRedshiftQuery env (refined r1) (query_selection.selectedQuery r2)
                     (table_selection.selectedTables r3) (table_selection.selectedColumns r3) s3;
        all_succeeded =
          (step_result.success r1 = Some True \<and> step_result.success r3 = Some True \<and>
           (case o4 of Inr r4 \<Rightarrow> step_result.success r4 = Some True | Inl e \<Rightarrow> False));
        r = fst (processQuery env u t0 t1 s)
    in pipeline_result.success r = all_succeeded \<and>
       (finalQuery r \<noteq> None) = all_succeeded \<and>
       finalQuery r = (if all_succeeded then query (projr o4) else None) \<and>
       (finalQuery r \<noteq> None) = pipeline_result.success r \<and>
       pipeline_result.success r = required_steps_succeeded (steps r) \<and>
       refinement (steps r) = Some r1 \<and>
       tableSelection (steps r) =
         (if step_result.success r1 = Some True then Some r3 else None) \<and>
       queryGeneration (steps r) =
         (if step_result.success r1 = Some True \<and> step_result.success r3 = Some True
          then (case o4 of Inr r4 \<Rightarrow> Some r4 | Inl e \<Rightarrow> None) else None) \<and>
       processingTime r = t1 - t0)"
proof -
  obtain r1 s1 where a: "refineUserInput env u s = (r1, s1)" by force
  obtain r2 s2 where b: "selectBestQuery env (refined r1) s1 = (r2, s2)" by force
  obtain r3 s3 where c: "selectTablesAndColumns env (refined r1) s2 = (r3, s3)" by force
  obtain o4 s4 where d: "generateRedshiftQuery env (refined r1) (query_selection.selectedQuery r2)
             (table_selection.selectedTables r3) (table_selection.selectedColumns r3) s3 = (o4, s4)" by force
  have e: "query r4 \<noteq> None" if "o4 = Inr r4" "\<not> failed r4" for r4
    using d that generateRedshiftQuery_query(2) [of env "refined r1" _ _ _ s3 r4 s4] by simp
  show ?thesis
  proof (cases o4)
    case (Inl x)
    then show ?thesis
      using a b c d
      by (auto simp: processQuery_def processQuery_try_def Let_def required_steps_succeeded_def
          step_succeeded_def failed_def split: option.splits)
  next
    case (Inr r4)
    then show ?thesis
      using a b c d e [of r4]
      by (auto simp: processQuery_def processQuery_try_def Let_def required_steps_succeeded_def
          step_succeeded_def failed_def split: option.splits)
  qed
qed

text \<open>
  A run in which every step succeeds: the replies are a refined request, a table
  selection and a query padded with blanks, which comes back trimmed.
\<close>

theorem processQuery_invariant_witness:
  "pipeline_result.success (fst (processQuery
     (scripted_engine [Inr ''top customers by spend'', Inr tables_reply,
                       Inr '' SELECT order_id FROM orders; ''] demo_parse)
     ''top customers'' 100 250 orders_agent)) \<and>
   finalQuery (fst (processQuery
     (scripted_engine [Inr ''top customers by spend'', Inr tables_reply,
                       Inr '' SELECT order_id FROM orders; ''] demo_parse)
     ''top customers'' 100 250 orders_agent)) = Some ''SELECT order_id FROM orders;'' \<and>
   processingTime (fst (processQuery
     (scripted_engine [Inr ''top customers by spend'', Inr tables_reply,
                       Inr '' SELECT order_id FROM orders; ''] demo_parse)
     ''top customers'' 100 250 orders_agent)) = 150"
  using processQuery_invariant [of
      "scripted_engine [Inr ''top customers by spend'', Inr tables_reply,
                        Inr '' SELECT order_id FROM orders; ''] demo_parse"
      "''top customers''" orders_agent 100 250]
  by (simp add: Let_def refineUserInput_def callOllama_def scripted_engine_def model_name_def
      orders_agent_state selectBestQuery_def selectTablesAndColumns_def
      selectTablesAndColumns_try_def tables_of_def demo_parse_def selection_reply_def
      tables_reply_def generateRedshiftQuery_def generation_prompt_def tablesInfo_def
      table_info_def js_member_def or_empty_array_def join_columns_def js_join_def
      js_trim_def is_space_def)

text \<open>
  C2. The claim asks every step result for a boolean \<open>success\<close>, the short-circuit
  results included. The code does not give it there: with an empty catalog
  \<open>selectBestQuery\<close> and \<open>selectTablesAndColumns\<close> return an object literal without
  a \<open>success\<close> property, while the other two return paths of the same functions write
  it. Evaluated here at agents built with no example queries and with no table
  metadata, for any model service and any prompt.
\<close>

theorem short_circuit_results_lack_success:
  "step_result.success (fst (selectBestQuery env p (AIAgent None tm))) = None \<and>
   \<not> carries_flags (fst (selectBestQuery env p (AIAgent None tm))) \<and>
   step_result.success (fst (selectTablesAndColumns env p (AIAgent exs None))) = None \<and>
   \<not> carries_flags (fst (selectTablesAndColumns env p (AIAgent exs None)))"
  by (simp add: selectBestQuery_def selectTablesAndColumns_def AIAgent_def carries_flags_def)

text \<open>
  C3. If the model call of the input refiner throws, \<open>refineUserInput\<close> returns
  \<open>success: false\<close> with \<open>refined\<close> (and \<open>original\<close>) equal to the input, and
  \<open>processQuery\<close> returns \<open>success: false\<close> with an error that starts with
  \<open>Input refinement failed: \<close> and goes on with the message of what was thrown.
\<close>

theorem refinement_failure_passes_input_through:
  assumes "fst (callOllama env (refinement_prompt u) None s) = Inl e"
  shows "step_result.success (fst (refineUserInput env u s)) = Some False \<and>
         refined (fst (refineUserInput env u s)) = u \<and>
         original (fst (refineUserInput env u s)) = u \<and>
         \<not> pipeline_result.success (fst (processQuery env u t0 t1 s)) \<and>
         pipeline_result.error (fst (processQuery env u t0 t1 s)) =
           Some (''Input refinement failed: '' @ message e)"
proof -
  obtain r1 s1 where a: "refineUserInput env u s = (r1, s1)" by force
  have r: "r1 = \<lparr>step_result.success = Some False, step_result.error = Some (message e),
                   original = u, refined = u\<rparr>"
    using a assms refineUserInput_result [of env u s] by simp
  show ?thesis
    using a r
    by (simp add: processQuery_def processQuery_try_def Let_def failed_def error_text_def)
qed

text \<open>The model service is unreachable: the first call throws.\<close>

theorem refinement_failure_witness:
  "refined (fst (refineUserInput (scripted_engine [] demo_parse) ''top customers'' orders_agent))
     = ''top customers'' \<and>
   pipeline_result.error
     (fst (processQuery (scripted_engine [] demo_parse) ''top customers'' 100 250 orders_agent))
     = Some ''Input refinement failed: Ollama API call failed: fetch failed''"
proof -
  have h: "fst (callOllama (scripted_engine [] demo_parse) (refinement_prompt ''top customers'')
                  None orders_agent) = Inl (Error ''Ollama API call failed: fetch failed'')"
    by (simp add: callOllama_def scripted_engine_def Let_def)
  show ?thesis
    using refinement_failure_passes_input_through [OF h, of 100 250] by simp
qed

text \<open>
  C4. In a run on a non-empty table-metadata catalog that reaches the table selection
  (the refinement did not fail), if the model's reply to the table selector does not
  parse as JSON, then \<open>selectTablesAndColumns\<close> returns \<open>success: false\<close> with
  \<open>selectedTables: []\<close> and \<open>selectedColumns: {}\<close>, and \<open>processQuery\<close> returns
  \<open>success: false\<close> with the error \<open>Table selection failed: \<close> followed by the
  parser's message. The query generator is not invoked: no generation result is
  recorded, and the run ends in the state the table selector's call left, whose last
  logged call is the table selector's.
\<close>

theorem unparseable_table_selection_aborts:
  assumes "tableMetadata s \<noteq> []"
    and "refineUserInput env u s = (r1, s1)"
    and "\<not> failed r1"
    and "selectBestQuery env (refined r1) s1 = (r2, s2)"
    and "callOllama env (table_prompt (refined r1) (tableMetadata s)) None s2 = (Inr response, s3)"
    and "JSON_parse env response = Inl e"
  shows "selectTablesAndColumns env (refined r1) s2 =
           (\<lparr>step_result.success = Some False, step_result.error = Some (message e),
             table_selection.selectedTables = Arr [], table_selection.selectedColumns = Obj [],
             table_selection.reasoning = Str (''Error selecting tables and columns: '' @ message e),
             table_selection.confidence = Num 0\<rparr>, s3) \<and>
         \<not> pipeline_result.success (fst (processQuery env u t0 t1 s)) \<and>
         pipeline_result.error (fst (processQuery env u t0 t1 s)) =
           Some (''Table selection failed: '' @ message e) \<and>
         queryGeneration (steps (fst (processQuery env u t0 t1 s))) = None \<and>
         snd (processQuery env u t0 t1 s) = s3 \<and>
         calls s3 = calls s2 @ [(model_name env None, table_prompt (refined r1) (tableMetadata s))]"
proof -
  have t1: "tableMetadata s1 = tableMetadata s"
    using assms(2) refineUserInput_state [of env u s]
      callOllama_catalogs(2) [of env "refinement_prompt u" None s] by simp
  have t2: "tableMetadata s2 = tableMetadata s"
    using assms(4) t1 selectBestQuery_catalogs(2) [of env "refined r1" s1] by simp
  have sel: "selectTablesAndColumns env (refined r1) s2 = (selectTablesAndColumns_catch e, s3)"
    using assms(1,5,6) t2
    by (simp add: selectTablesAndColumns_def selectTablesAndColumns_try_def)
  have log: "calls s3 = calls s2 @ [(model_name env None, table_prompt (refined r1) (tableMetadata s))]"
    using callOllama_frame(3) [OF assms(5)] .
  show ?thesis
    using assms(2,3,4) sel log
    by (simp add: processQuery_def processQuery_try_def Let_def selectTablesAndColumns_catch_def
        failed_def error_text_def)
qed

text \<open>The second reply, to the table selector, is prose.\<close>

theorem unparseable_table_selection_witness:
  "pipeline_result.error
     (fst (processQuery (scripted_engine [Inr ''top customers by spend'', Inr ''Sure! The tables are''] demo_parse)
             ''top customers'' 100 250 orders_agent))
     = Some ''Table selection failed: Unexpected token'' \<and>
   queryGeneration (steps
     (fst (processQuery (scripted_engine [Inr ''top customers by spend'', Inr ''Sure! The tables are''] demo_parse)
             ''top customers'' 100 250 orders_agent))) = None \<and>
   length (calls (snd (processQuery (scripted_engine [Inr ''top customers by spend'', Inr ''Sure! The tables are''] demo_parse)
             ''top customers'' 100 250 orders_agent))) = 2"
proof -
  let ?env = "scripted_engine [Inr ''top customers by spend'', Inr ''Sure! The tables are''] demo_parse"
  let ?s1 = "orders_agent\<lparr>calls := [(''llama3.1'', refinement_prompt ''top customers'')]\<rparr>"
  let ?r1 = "\<lparr>step_result.success = Some True, step_result.error = None,
              original = ''top customers'', refined = ''top customers by spend''\<rparr>"
  let ?s3 = "orders_agent\<lparr>calls := [(''llama3.1'', refinement_prompt ''top customers''),
               (''llama3.1'', table_prompt ''top customers by spend'' (tableMetadata orders_agent))]\<rparr>"
  have 1: "tableMetadata orders_agent \<noteq> []"
    by (simp add: orders_agent_state)
  have 2: "refineUserInput ?env ''top customers'' orders_agent = (?r1, ?s1)"
    by (simp add: refineUserInput_def callOllama_def scripted_engine_def Let_def model_name_def
        orders_agent_state)
  have 3: "\<not> failed ?r1" by (simp add: failed_def)
  have 4: "selectBestQuery ?env (refined ?r1) ?s1 =
             (\<lparr>step_result.success = None, step_result.error = None,
               query_selection.selectedQuery = Null, selectedQueryIndex = Undefined,
               query_selection.confidence = Num 0,
               query_selection.reasoning = Str ''No example queries available''\<rparr>, ?s1)"
    by (simp add: selectBestQuery_def orders_agent_state)
  have 5: "callOllama ?env (table_prompt (refined ?r1) (tableMetadata orders_agent)) None ?s1 =
             (Inr ''Sure! The tables are'', ?s3)"
    by (simp add: callOllama_def scripted_engine_def Let_def model_name_def
        orders_agent_state)
  have 6: "JSON_parse ?env ''Sure! The tables are'' = Inl (SyntaxError ''Unexpected token'')"
    by (simp add: scripted_engine_def demo_parse_def selection_reply_def tables_reply_def)
  show ?thesis
    using unparseable_table_selection_aborts [OF 1 2 3 4 5 6, of 100 250]
    by simp
qed

text \<open>
  C5. The claim asks every component step to return a failure-flagged result rather
  than throw to its caller, whatever its input and whatever the model does. The code
  does not do so in \<open>generateRedshiftQuery\<close>: it evaluates \<open>selectedTables.map\<close> before
  its \<open>try\<close>, so with \<open>selectedTables\<close> \<open>undefined\<close> it throws a TypeError to its caller
  and makes no model call. The orchestrator passes \<open>undefined\<close> there when the table
  selector's reply is the JSON object \<open>{}\<close>: the table selection succeeds, no
  generation result is recorded, and the run fails with the TypeError's message as its
  error, without the prefix of a failed generation step.
\<close>

theorem generateRedshiftQuery_throws_on_undefined_tables:
  "isl (fst (generateRedshiftQuery env p q Undefined c s)) \<and>
   snd (generateRedshiftQuery env p q Undefined c s) = s \<and>
   isl (fst (generateRedshiftQuery (scripted_engine [] demo_parse) ''top customers by spend''
               Null Undefined Undefined orders_agent)) \<and>
   step_succeeded (tableSelection (steps (fst (processQuery
     (scripted_engine [Inr ''top customers by spend'', Inr ''{}''] demo_parse)
     ''top customers'' 100 250 orders_agent)))) \<and>
   queryGeneration (steps (fst (processQuery
     (scripted_engine [Inr ''top customers by spend'', Inr ''{}''] demo_parse)
     ''top customers'' 100 250 orders_agent))) = None \<and>
   \<not> pipeline_result.success (fst (processQuery
     (scripted_engine [Inr ''top customers by spend'', Inr ''{}''] demo_parse)
     ''top customers'' 100 250 orders_agent)) \<and>
   pipeline_result.error (fst (processQuery
     (scripted_engine [Inr ''top customers by spend'', Inr ''{}''] demo_parse)
     ''top customers'' 100 250 orders_agent)) =
     Some ''Cannot read properties of undefined (reading 'map')''"
  by (simp add: generateRedshiftQuery_def generation_prompt_def tablesInfo_def Let_def
      processQuery_def processQuery_try_def refineUserInput_def callOllama_def
      scripted_engine_def model_name_def failed_def selectBestQuery_def orders_agent_state
      selectTablesAndColumns_def selectTablesAndColumns_try_def
      tables_of_def demo_parse_def selection_reply_def tables_reply_def step_succeeded_def)

text \<open>
  C6. \<open>isValid\<close> is the conjunction of the four checks as the specification words them:
  the query contains SELECT and contains FROM, in any letter case; it ends with a
  semicolon once trimmed, or has no semicolon; and it is not empty once trimmed.
  \<open>SELECT a FROM b;\<close> is valid with no suggestion; the empty query is not valid and
  fails \<open>notEmpty\<close>. (The two words are looked for as character sequences: the regular
  expressions have no word boundary.)
\<close>

theorem validateQuery_checks:
  "isValid (validateQuery q) =
     (spec_contains_ci ''SELECT'' q \<and> spec_contains_ci ''FROM'' q \<and>
      (spec_ends_with_semicolon q \<or> spec_no_semicolon q) \<and> spec_not_blank q) \<and>
   isValid (validateQuery ''SELECT a FROM b;'') \<and>
   suggestions (validateQuery ''SELECT a FROM b;'') = [] \<and>
   \<not> notEmpty (checks (validateQuery '''')) \<and>
   \<not> isValid (validateQuery '''')"
proof -
  have 1: "isValid (validateQuery q) =
     (spec_contains_ci ''SELECT'' q \<and> spec_contains_ci ''FROM'' q \<and>
      (spec_ends_with_semicolon q \<or> spec_no_semicolon q) \<and> spec_not_blank q)"
    using trimmed_not_blank [of q]
    by (simp add: validateQuery_def Let_def regex_test_i_iff trimmed_ends_with_semicolon
        js_includes_semicolon spec_no_semicolon_def)
  have 2: "isValid (validateQuery ''SELECT a FROM b;'') \<and>
      suggestions (validateQuery ''SELECT a FROM b;'') = []"
    by (simp add: validateQuery_def Let_def generateSuggestions_def canonicalize_def
        endsWith_def js_trim_def is_space_def)
  have 3: "\<not> notEmpty (checks (validateQuery '''')) \<and> \<not> isValid (validateQuery '''')"
    by (simp add: validateQuery_def Let_def js_trim_def)
  show ?thesis using 1 2 3 by blast
qed

text \<open>
  C7. For every combination of check outcomes, each of the three messages occurs in
  the suggestions once when its check (\<open>hasSelect\<close>, \<open>hasFrom\<close>, \<open>notEmpty\<close>) fails and
  not at all when it holds, nothing else is in the list, and \<open>properSyntax\<close> has no
  influence on it. \<open>DELETE FROM b\<close> fails \<open>hasSelect\<close>, is not valid, and gets the
  SELECT message.
\<close>

theorem generateSuggestions_messages:
  "count_list (generateSuggestions c) ''Query should include a SELECT statement'' =
     (if hasSelect c then 0 else 1) \<and>
   count_list (generateSuggestions c) ''Query should include a FROM clause'' =
     (if hasFrom c then 0 else 1) \<and>
   count_list (generateSuggestions c) ''Query cannot be empty'' =
     (if notEmpty c then 0 else 1) \<and>
   length (generateSuggestions c) =
     (if hasSelect c then 0 else 1) + (if hasFrom c then 0 else 1) + (if notEmpty c then 0 else 1) \<and>
   generateSuggestions (c\<lparr>properSyntax := b\<rparr>) = generateSuggestions c \<and>
   \<not> hasSelect (checks (validateQuery ''DELETE FROM b'')) \<and>
   \<not> isValid (validateQuery ''DELETE FROM b'') \<and>
   suggestions (validateQuery ''DELETE FROM b'') = [''Query should include a SELECT statement'']"
proof -
  have "\<not> hasSelect (checks (validateQuery ''DELETE FROM b'')) \<and>
   \<not> isValid (validateQuery ''DELETE FROM b'') \<and>
   suggestions (validateQuery ''DELETE FROM b'') = [''Query should include a SELECT statement'']"
    by (simp add: validateQuery_def Let_def generateSuggestions_def canonicalize_def
        endsWith_def js_trim_def is_space_def)
  then show ?thesis
    by (simp add: generateSuggestions_def)
qed

text \<open>
  C8. On a non-empty example-query catalog, when the model call returns a reply that
  parses to a JSON object, the result of \<open>selectBestQuery\<close> has \<open>success: true\<close>, and
  its \<open>selectedQuery\<close>, \<open>confidence\<close> and \<open>reasoning\<close> are what reading those
  properties of the parsed object gives (\<open>undefined\<close> for one that is missing).
\<close>

theorem selectBestQuery_echoes_fields:
  assumes "exampleQueries s \<noteq> []"
    and "callOllama env (selection_prompt p (exampleQueries s)) None s = (Inr response, s')"
    and "JSON_parse env response = Inr (Obj props)"
  shows "(let r = fst (selectBestQuery env p s) in
          get_field (Obj props) ''selectedQuery'' = Inr (query_selection.selectedQuery r) \<and>
          get_field (Obj props) ''confidence'' = Inr (query_selection.confidence r) \<and>
          get_field (Obj props) ''reasoning'' = Inr (query_selection.reasoning r) \<and>
          step_result.success r = Some True)"
  using assms
  by (simp add: selectBestQuery_def selectBestQuery_try_def selection_of_def Let_def)

text \<open>A reply that has no \<open>confidence\<close>.\<close>

theorem selectBestQuery_echoes_fields_witness:
  "(let r = fst (selectBestQuery (scripted_engine [Inr selection_reply] demo_parse)
                   ''the number one'' demo_agent) in
     query_selection.selectedQuery r = Str ''SELECT 1;'' \<and>
     query_selection.confidence r = Undefined \<and>
     query_selection.reasoning r = Str ''only one'' \<and>
     step_result.success r = Some True)"
proof -
  have 1: "exampleQueries demo_agent \<noteq> []"
    by (simp add: demo_agent_def orders_agent_state addExampleQuery_def)
  have 2: "callOllama (scripted_engine [Inr selection_reply] demo_parse)
             (selection_prompt ''the number one'' (exampleQueries demo_agent)) None
             demo_agent =
           (Inr selection_reply,
            demo_agent\<lparr>calls := [(''llama3.1'',
              selection_prompt ''the number one'' (exampleQueries demo_agent))]\<rparr>)"
    by (simp add: callOllama_def scripted_engine_def Let_def model_name_def demo_agent_def
        orders_agent_state addExampleQuery_def)
  have 3: "JSON_parse (scripted_engine [Inr selection_reply] demo_parse) selection_reply =
           Inr (Obj [(''selectedQueryIndex'', Num 1), (''selectedQuery'', Str ''SELECT 1;''),
                  (''reasoning'', Str ''only one'')])"
    by (simp add: scripted_engine_def demo_parse_def)
  show ?thesis
    using selectBestQuery_echoes_fields [OF 1 2 3] by (simp add: Let_def)
qed

text \<open>
  C9. A run of \<open>processQuery\<close> leaves both catalogs as they were, whatever its outcome.
  \<open>addExampleQuery\<close> appends one entry to the example queries and leaves the table
  metadata alone; \<open>addTableMetadata\<close> leaves the example queries alone and, in the
  table metadata, every entry under a name other than the one it is given.
\<close>

theorem processQuery_catalogs_unchanged:
  "exampleQueries (snd (processQuery env u t0 t1 s)) = exampleQueries s \<and>
   tableMetadata (snd (processQuery env u t0 t1 s)) = tableMetadata s \<and>
   exampleQueries (addExampleQuery q d s) =
     exampleQueries s @ [\<lparr>example_query.query = q, example_query.description = d\<rparr>] \<and>
   tableMetadata (addExampleQuery q d s) = tableMetadata s \<and>
   exampleQueries (addTableMetadata n m s) = exampleQueries s \<and>
   map_of (tableMetadata (addTableMetadata n m s)) |` (- {n}) =
     map_of (tableMetadata s) |` (- {n})"
proof -
  have "map_of (set_property n m (tableMetadata s)) k = map_of (tableMetadata s) k"
    if "k \<noteq> n" for k
    using that by (rule set_property_other)
  then have "map_of (set_property n m (tableMetadata s)) |` (- {n}) =
               map_of (tableMetadata s) |` (- {n})"
    by (auto simp: restrict_map_def)
  then show ?thesis
    using processQuery_state_catalogs [of env u t0 t1 s]
    by (simp add: addExampleQuery_def addTableMetadata_def)
qed

text \<open>
  C10. With an empty table-metadata catalog, a run whose input refinement succeeds
  always fails: the table selection returns its short-circuit object, which has no
  \<open>success\<close> property; the orchestrator reads that as a failed step and aborts with the
  error \<open>Table selection failed: undefined\<close>; no query generation result is recorded,
  and the state is the one the pattern selection left, so the model service is not
  called again.
\<close>

theorem empty_table_catalog_always_fails:
  assumes "tableMetadata s = []"
    and "step_result.success (fst (refineUserInput env u s)) = Some True"
  shows "(let (r, s') = processQuery env u t0 t1 s;
              r1 = fst (refineUserInput env u s);
              s2 = snd (selectBestQuery env (refined r1) (snd (refineUserInput env u s)))
          in (\<exists>r3. tableSelection (steps r) = Some r3 \<and> step_result.success r3 = None \<and> failed r3) \<and>
             queryGeneration (steps r) = None \<and>
             s' = s2 \<and>
             \<not> pipeline_result.success r \<and>
             pipeline_result.error r = Some ''Table selection failed: undefined'')"
proof -
  obtain r1 s1 where a: "refineUserInput env u s = (r1, s1)" by force
  obtain r2 s2 where b: "selectBestQuery env (refined r1) s1 = (r2, s2)" by force
  have t1: "tableMetadata s1 = []"
    using a assms(1) refineUserInput_state [of env u s] callOllama_catalogs(2) [of env "refinement_prompt u" None s] by simp
  have t2: "tableMetadata s2 = []"
    using b t1 selectBestQuery_catalogs(2) [of env "refined r1" s1] by simp
  show ?thesis
    using a b t2 assms(2)
    by (simp add: processQuery_def processQuery_try_def Let_def selectTablesAndColumns_def
        failed_def error_text_def)
qed

text \<open>An agent built with no configuration; the refinement succeeds.\<close>

theorem empty_table_catalog_witness:
  "pipeline_result.error
     (fst (processQuery (scripted_engine [Inr ''top customers by spend''] demo_parse)
             ''top customers'' 100 250 (AIAgent None None)))
     = Some ''Table selection failed: undefined'' \<and>
   queryGeneration (steps
     (fst (processQuery (scripted_engine [Inr ''top customers by spend''] demo_parse)
             ''top customers'' 100 250 (AIAgent None None)))) = None"
proof -
  have 1: "tableMetadata (AIAgent None None) = []" by (simp add: AIAgent_def)
  have 2: "step_result.success (fst (refineUserInput
             (scripted_engine [Inr ''top customers by spend''] demo_parse) ''top customers''
             (AIAgent None None))) = Some True"
    by (simp add: refineUserInput_def callOllama_def scripted_engine_def Let_def AIAgent_def)
  show ?thesis
    using empty_table_catalog_always_fails [OF 1 2, of 100 250]
    by (simp add: Let_def split: prod.splits)
qed

subsection \<open>Further properties\<close>

text \<open>
  The prompt of \<open>generateRedshiftQuery\<close> can be built, so the call does not throw,
  whenever the selected tables are an array of strings, the selected columns are a
  plain object that gives each of those tables an array of strings, and the selected
  query is a string, \<open>null\<close> or \<open>undefined\<close>.
\<close>

theorem generation_prompt_well_typed:
  assumes "\<forall>n \<in> set names. \<exists>cols. map_of props n = Some (Arr (map Str cols))"
    and "q = Undefined \<or> q = Null \<or> (\<exists>t. q = Str t)"
  shows "\<not> isl (generation_prompt env p q (Arr (map Str names)) (Obj props))"
proof -
  define g where "g = (\<lambda>x. case x of Str n \<Rightarrow>
      (case map_of props n of Some (Arr cs) \<Rightarrow>
         ''Table: '' @ n @ ''\<newline>Columns: '' @
           join_strs '', '' (map (\<lambda>c. case c of Str s \<Rightarrow> s | _ \<Rightarrow> []) cs) | _ \<Rightarrow> []) | _ \<Rightarrow> [])"
  have "\<forall>x \<in> set (map Str names). table_info env (Obj props) x = Inr (g x)"
  proof
    fix x assume "x \<in> set (map Str names)"
    then obtain n where n: "x = Str n" "n \<in> set names" by auto
    then obtain cols where c: "map_of props n = Some (Arr (map Str cols))" using assms(1) by blast
    show "table_info env (Obj props) x = Inr (g x)"
      using n c table_info_well_typed [OF c, of env] by (simp add: g_def comp_def)
  qed
  then have "sequence_exn (map (table_info env (Obj props)) (map Str names)) =
               Inr (map g (map Str names))"
    by (rule sequence_exn_Inr)
  then show ?thesis
    using assms(2) by (auto simp: generation_prompt_def tablesInfo_def)
qed

text \<open>Two tables, one of them with no column selected, and no reference query.\<close>

theorem generation_prompt_well_typed_witness:
  "\<not> isl (generation_prompt (scripted_engine [] demo_parse) ''top customers by spend'' Null
            (Arr (map Str [''orders'', ''customers'']))
            (Obj [(''orders'', Arr (map Str [''order_id''])), (''customers'', Arr (map Str []))]))"
proof -
  let ?props = "[(''orders'', Arr (map Str [''order_id''])), (''customers'', Arr (map Str []))]"
  have a: "map_of ?props ''orders'' = Some (Arr (map Str [''order_id'']))" by simp
  have b: "map_of ?props ''customers'' = Some (Arr (map Str []))" by simp
  have 1: "\<forall>n \<in> set [''orders'', ''customers'']. \<exists>cols. map_of ?props n = Some (Arr (map Str cols))"
    using a b by (metis empty_iff empty_set set_ConsD)
  have 2: "Null = Undefined \<or> Null = Null \<or> (\<exists>t. Null = Str t)" by simp
  show ?thesis
    using generation_prompt_well_typed [OF 1 2] .
qed

text \<open>
  Away from the two short-circuits every step result carries the flags the
  specification asks for: the result of \<open>refineUserInput\<close>, the results of the two
  selectors on a non-empty catalog, and what \<open>generateRedshiftQuery\<close> returns when it
  returns, each have a boolean \<open>success\<close>, with an \<open>error\<close> string when it is false.
\<close>

theorem step_results_carry_flags:
  "carries_flags (fst (refineUserInput env u s)) \<and>
   (exampleQueries s \<noteq> [] \<longrightarrow> carries_flags (fst (selectBestQuery env p s))) \<and>
   (tableMetadata s \<noteq> [] \<longrightarrow> carries_flags (fst (selectTablesAndColumns env p s))) \<and>
   (\<not> isl (fst (generateRedshiftQuery env p q t c s)) \<longrightarrow>
      carries_flags (projr (fst (generateRedshiftQuery env p q t c s))))"
proof -
  have 1: "carries_flags (fst (refineUserInput env u s))"
    by (simp add: refineUserInput_result carries_flags_def split: sum.splits)
  have 2: "carries_flags (fst (selectBestQuery env p s))" if "exampleQueries s \<noteq> []"
    using that
    by (auto simp: selectBestQuery_def selectBestQuery_try_def selectBestQuery_catch_def
        selection_of_def carries_flags_def split: prod.splits sum.splits)
  have 3: "carries_flags (fst (selectTablesAndColumns env p s))" if "tableMetadata s \<noteq> []"
    using that
    by (auto simp: selectTablesAndColumns_def selectTablesAndColumns_try_def
        selectTablesAndColumns_catch_def tables_of_def carries_flags_def
        split: prod.splits sum.splits)
  have 4: "carries_flags (projr (fst (generateRedshiftQuery env p q t c s)))"
    if "\<not> isl (fst (generateRedshiftQuery env p q t c s))"
    using that
    by (auto simp: generateRedshiftQuery_def Let_def carries_flags_def
        split: prod.splits sum.splits)
  show ?thesis using 1 2 3 4 by blast
qed

text \<open>Every model call throws, so each of these results is a failure.\<close>

theorem step_results_carry_flags_witness:
  "carries_flags (fst (selectBestQuery (scripted_engine [] demo_parse) ''top customers by spend'' demo_agent)) \<and>
   carries_flags (fst (selectTablesAndColumns (scripted_engine [] demo_parse) ''top customers by spend'' demo_agent)) \<and>
   carries_flags (projr (fst (generateRedshiftQuery (scripted_engine [] demo_parse)
           ''top customers by spend'' Null (Arr []) (Obj []) demo_agent)))"
proof -
  have 1: "exampleQueries demo_agent \<noteq> []" "tableMetadata demo_agent \<noteq> []"
    by (simp_all add: demo_agent_catalogs)
  have 2: "\<not> isl (fst (generateRedshiftQuery (scripted_engine [] demo_parse)
           ''top customers by spend'' Null (Arr []) (Obj []) demo_agent))"
    by (simp add: generateRedshiftQuery_def generation_prompt_def tablesInfo_def Let_def offline_call)
  show ?thesis
    using step_results_carry_flags [of "scripted_engine [] demo_parse" _ demo_agent
        "''top customers by spend''" Null "Arr []" "Obj []"] 1 2
    by simp
qed

text \<open>
  When a step flags a failure. \<open>refineUserInput\<close> does exactly when its model call
  throws. On a non-empty catalog each selector does exactly when its model call
  throws, the reply is not JSON, or the reply parses to \<open>null\<close>. When
  \<open>generateRedshiftQuery\<close> throws it has made no model call; when it returns it has
  made one call, and its result is failure-flagged exactly when that call threw.
  \<open>processQuery\<close> returns \<open>success: true\<close> and no error, or \<open>success: false\<close> and an
  error string.
\<close>

theorem steps_flag_failures:
  "failure_flagged (fst (refineUserInput env u s)) =
     isl (fst (callOllama env (refinement_prompt u) None s)) \<and>
   (exampleQueries s \<noteq> [] \<longrightarrow>
      failure_flagged (fst (selectBestQuery env p s)) =
        reply_unusable env (fst (callOllama env (selection_prompt p (exampleQueries s)) None s))) \<and>
   (tableMetadata s \<noteq> [] \<longrightarrow>
      failure_flagged (fst (selectTablesAndColumns env p s)) =
        reply_unusable env (fst (callOllama env (table_prompt p (tableMetadata s)) None s))) \<and>
   (isl (fst (generateRedshiftQuery env p q t c s)) \<longrightarrow>
      snd (generateRedshiftQuery env p q t c s) = s) \<and>
   (\<not> isl (fst (generateRedshiftQuery env p q t c s)) \<longrightarrow>
      (\<exists>pr. calls (snd (generateRedshiftQuery env p q t c s)) =
               calls s @ [(model_name env None, pr)] \<and>
            failure_flagged (projr (fst (generateRedshiftQuery env p q t c s))) =
              isl (ollama_chat env (length (calls s)) (model_name env None) pr))) \<and>
   pipeline_result.success (fst (processQuery env u t0 t1 s)) =
     (pipeline_result.error (fst (processQuery env u t0 t1 s)) = None)"
  using refineUserInput_flagged [of env u s] selectBestQuery_flagged [of s env p]
    selectTablesAndColumns_flagged [of s env p] generateRedshiftQuery_thrown [of env p q t c s]
    generateRedshiftQuery_returned [of env p q t c s] processQuery_error_iff [of env u t0 t1 s]
  by blast

text \<open>Every model call throws; the selections passed to the generator are well typed.\<close>

theorem steps_flag_failures_witness:
  "failure_flagged (fst (refineUserInput (scripted_engine [] demo_parse) ''top customers'' demo_agent)) \<and>
   failure_flagged (fst (selectBestQuery (scripted_engine [] demo_parse) ''top customers by spend'' demo_agent)) \<and>
   failure_flagged (fst (selectTablesAndColumns (scripted_engine [] demo_parse) ''top customers by spend'' demo_agent)) \<and>
   failure_flagged (projr (fst (generateRedshiftQuery (scripted_engine [] demo_parse)
           ''top customers by spend''
           (Str ''SELECT 1;'') (Arr [Str ''orders'']) (Obj [(''orders'', Arr [Str ''order_id''])])
           demo_agent))) \<and>
   pipeline_result.error (fst (processQuery (scripted_engine [] demo_parse) ''top customers''
           100 250 demo_agent)) \<noteq> None"
proof -
  let ?env = "scripted_engine [] demo_parse"
  have 1: "isl (fst (callOllama ?env pr None demo_agent))" for pr
    by (simp add: offline_call)
  have 2: "exampleQueries demo_agent \<noteq> []" "tableMetadata demo_agent \<noteq> []"
    by (simp_all add: demo_agent_catalogs)
  have 3: "reply_unusable ?env (fst (callOllama ?env pr None demo_agent))" for pr
    by (simp add: reply_unusable_def offline_call)
  have 4: "isl (ollama_chat ?env k m pr)" for k m pr
    by (simp add: scripted_engine_def)
  have 5: "\<not> isl (fst (generateRedshiftQuery ?env ''top customers by spend''
           (Str ''SELECT 1;'') (Arr [Str ''orders'']) (Obj [(''orders'', Arr [Str ''order_id''])])
           demo_agent))"
    by (simp add: generateRedshiftQuery_def generation_prompt_def tablesInfo_def table_info_def
        js_member_def or_empty_array_def join_columns_def js_join_def Let_def offline_call)
  have 6: "\<not> pipeline_result.success (fst (processQuery ?env ''top customers'' 100 250 demo_agent))"
    by (simp add: processQuery_def processQuery_try_def Let_def refineUserInput_def offline_call
        failed_def)
  show ?thesis
    using steps_flag_failures [of ?env "''top customers''" demo_agent "''top customers by spend''"
        "Str ''SELECT 1;''" "Arr [Str ''orders'']" "Obj [(''orders'', Arr [Str ''order_id''])]"
        100 250]
      1 2 3 4 5 6
    by auto
qed

end
